theory Spec2Isabelle
  imports Complex_Main "HOL-Library.Word"
begin

unbundle bit_operations_syntax

section \<open>Data model of the payout application\<close>

text \<open>
  Money columns are \<^verbatim>\<open>DecimalField(max_digits=12, decimal_places=2)\<close>; a
  \<^verbatim>\<open>Decimal\<close> is modelled by its number of cents, an unbounded integer as Python's
  \<^verbatim>\<open>Decimal\<close> is exact at these sizes; the 12 digits of the column are a check made
  where a row is loaded (see \<open>fits\<close> below). A timestamp is a number of seconds since the
  epoch (UTC), a date a number of days since the epoch. The columns \<^verbatim>\<open>created_at\<close>,
  \<^verbatim>\<open>updated_at\<close> and \<^verbatim>\<open>requested_at\<close> are filled by the ORM and read by none of
  the modelled functions; they are left out.
\<close>

type_synonym money = int

text \<open>
  The two fee columns of \<^verbatim>\<open>Payout\<close> are declared with \<^verbatim>\<open>default=0.00\<close>, a Python
  float. The ORM converts a value to \<^verbatim>\<open>Decimal\<close> when it loads a row; on an object built
  in memory (\<^verbatim>\<open>Payout(...)\<close>, \<^verbatim>\<open>Payout.objects.create(...)\<close>) an attribute that the
  caller does not give holds the default as it is written, the float. So a fee attribute
  is a \<^verbatim>\<open>Decimal\<close> or that float, and the arithmetic of \<^verbatim>\<open>Payout.save\<close> has the
  two cases.
\<close>

datatype number = Decimal money | Float_default
type_synonym timestamp = int
type_synonym date = int
type_synonym uuid = "128 word"

datatype account_type = Acc_BANK_ACCOUNT | Acc_PAYPAL | Acc_STRIPE | Acc_CASH

datatype verification_status = Ver_PENDING | Ver_VERIFIED | Ver_FAILED

datatype payout_status = PENDING | PROCESSING | COMPLETED | FAILED | CANCELLED

datatype payout_method = BANK_TRANSFER | PAYPAL | STRIPE | MANUAL

datatype schedule_type = Sch_MANUAL | Sch_WEEKLY | Sch_BI_WEEKLY | Sch_MONTHLY

record payout_account =
  account_id :: nat
  account_vendor :: nat
  account_type :: account_type
  is_primary :: bool
  verification_status :: verification_status
  email :: "string option"
  stripe_account_id :: "string option"

record payout =
  payout_id :: nat
  vendor :: nat
  payout_account :: "nat option"
  amount :: money
  currency :: string
  payout_method :: payout_method
  status :: payout_status
  commission_fee :: number
  processing_fee :: number
  net_amount :: money
  processed_at :: "timestamp option"
  completed_at :: "timestamp option"
  reference_number :: string
  processor_reference :: "string option"
  failure_reason :: "string option"
  retry_count :: nat

record vendor_balance =
  available_balance :: money
  pending_balance :: money
  total_earnings :: money
  total_payouts :: money
  on_hold_balance :: money

record payout_schedule =
  schedule_id :: nat
  schedule_vendor :: nat
  schedule_type :: schedule_type
  is_active :: bool
  next_payout_date :: "date option"
  minimum_payout_amount :: money
  auto_process :: bool
  last_processed_at :: "timestamp option"

text \<open>Celery tasks handed to the broker by \<^verbatim>\<open>.delay(...)\<close>.\<close>

datatype task =
  Process_payout nat
  | Send_payout_processed_email nat
  | Send_payout_failed_email nat string

text \<open>
  The database: one \<^verbatim>\<open>VendorBalance\<close> row per vendor at most (a one-to-one relation,
  so a partial map from the vendor id), and the tables of accounts, payouts and schedules
  as lists of rows in query order. \<open>task_queue\<close> records the tasks dispatched so far.
\<close>

record database =
  balances :: "nat \<rightharpoonup> vendor_balance"
  payout_accounts :: "payout_account list"
  payouts :: "payout list"
  payout_schedules :: "payout_schedule list"
  task_queue :: "task list"

text \<open>Every exception the modelled code raises is a value.\<close>

datatype error =
  ValidationError string string
  | AttributeError string
  | CustomException string nat
  | PayoutError string
  | IntegrityError string
  | RelatedObjectDoesNotExist string
  | TypeError string
  | KeyError string
  | DoesNotExist string
  | InvalidOperation string
  | OverflowError string

section \<open>Reference numbers: \<^verbatim>\<open>uuid.uuid4().hex[:8].upper()\<close>\<close>

text \<open>
  A UUID is a 128-bit integer; \<^verbatim>\<open>hex\<close> prints it as 32 lower-case hexadecimal digits,
  most significant first. \<^verbatim>\<open>str.upper\<close> is modelled on ASCII, which is all \<^verbatim>\<open>hex\<close>
  produces. The value drawn by \<^verbatim>\<open>uuid4()\<close> is an input of every function that may
  call it.
\<close>

definition hex_char :: "nat \<Rightarrow> char" where
  "hex_char n = ''0123456789abcdef'' ! n"

definition uuid_hex :: "uuid \<Rightarrow> string" where
  "uuid_hex u = map (\<lambda>i. hex_char (unat (drop_bit (4 * (31 - i)) u AND 15))) [0..<32]"

definition upper_char :: "char \<Rightarrow> char" where
  "upper_char c =
     (let n = of_char c :: nat in if 97 \<le> n \<and> n \<le> 122 then char_of (n - 32) else c)"

definition upper :: "string \<Rightarrow> string" where
  "upper s = map upper_char s"

definition new_reference_number :: "uuid \<Rightarrow> string" where
  "new_reference_number u = ''PO-'' @ upper (take 8 (uuid_hex u))"


section \<open>\<^verbatim>\<open>Payout.save\<close> and the payouts table\<close>

text \<open>
  \<^verbatim>\<open>Decimal - x\<close>: Python subtracts two \<^verbatim>\<open>Decimal\<close>s exactly and raises
  \<^verbatim>\<open>TypeError\<close> when \<open>x\<close> is a float.
\<close>

definition decimal_sub :: "money \<Rightarrow> number \<Rightarrow> error + money" where
  "decimal_sub a x =
     (case x of
        Decimal d \<Rightarrow> Inr (a - d)
      | Float_default \<Rightarrow>
          Inl (TypeError ''unsupported operand type(s) for -: decimal.Decimal and float''))"

text \<open>
  \<^verbatim>\<open>Payout.save\<close> (models.py, lines 147 to 155), up to the call of \<^verbatim>\<open>super().save\<close>:
  a falsy \<^verbatim>\<open>reference_number\<close> (the empty string of an unsaved object) is replaced by a
  generated one, then \<^verbatim>\<open>net_amount\<close> is recomputed as
  \<^verbatim>\<open>self.amount - self.commission_fee - self.processing_fee\<close>, from left to right.
\<close>

definition Payout_save :: "uuid \<Rightarrow> payout \<Rightarrow> error + payout" where
  "Payout_save u p =
     (let p1 = (if reference_number p = [] then p\<lparr>reference_number := new_reference_number u\<rparr>
                else p)
      in case decimal_sub (amount p1) (commission_fee p1) of
           Inl e \<Rightarrow> Inl e
         | Inr x \<Rightarrow>
             (case decimal_sub x (processing_fee p1) of
                Inl e \<Rightarrow> Inl e
              | Inr n \<Rightarrow> Inr (p1\<lparr>net_amount := n\<rparr>)))"

text \<open>
  The write itself (\<^verbatim>\<open>super().save\<close>). \<^verbatim>\<open>payout_account\<close> is a non-null foreign key
  and \<^verbatim>\<open>reference_number\<close> a \<^verbatim>\<open>unique=True\<close> column: a write without an account, or
  whose reference number is that of another row, raises \<^verbatim>\<open>IntegrityError\<close> and changes
  nothing. An insert gives the row the next primary key.
\<close>

definition new_payout_id :: "payout list \<Rightarrow> nat" where
  "new_payout_id ps = Suc (foldr max (map payout_id ps) 0)"

definition insert_payout :: "database \<Rightarrow> payout \<Rightarrow> error + (database \<times> payout)" where
  "insert_payout db p =
     (if payout_account p = None then Inl (IntegrityError ''payouts.payout_account_id'')
      else if list_ex (\<lambda>q. reference_number q = reference_number p) (payouts db)
      then Inl (IntegrityError ''payouts.reference_number'')
      else let q = p\<lparr>payout_id := new_payout_id (payouts db)\<rparr>
           in Inr (db\<lparr>payouts := payouts db @ [q]\<rparr>, q))"

definition update_payout :: "database \<Rightarrow> payout \<Rightarrow> error + database" where
  "update_payout db p =
     (if payout_account p = None then Inl (IntegrityError ''payouts.payout_account_id'')
      else if list_ex (\<lambda>q. payout_id q \<noteq> payout_id p \<and> reference_number q = reference_number p)
           (payouts db)
      then Inl (IntegrityError ''payouts.reference_number'')
      else Inr (db\<lparr>payouts := map (\<lambda>q. if payout_id q = payout_id p then p else q) (payouts db)\<rparr>))"

text \<open>\<^verbatim>\<open>save()\<close> on a new object, and on an object loaded from the table.\<close>

definition save_new :: "database \<Rightarrow> uuid \<Rightarrow> payout \<Rightarrow> error + (database \<times> payout)" where
  "save_new db u p =
     (case Payout_save u p of
        Inl e \<Rightarrow> Inl e
      | Inr q \<Rightarrow> insert_payout db q)"

definition save_loaded :: "database \<Rightarrow> uuid \<Rightarrow> payout \<Rightarrow> error + (database \<times> payout)" where
  "save_loaded db u p =
     (case Payout_save u p of
        Inl e \<Rightarrow> Inl e
      | Inr q \<Rightarrow> (case update_payout db q of Inl e \<Rightarrow> Inl e | Inr db' \<Rightarrow> Inr (db', q)))"

text \<open>
  \<^verbatim>\<open>Payout.objects.create(**fields)\<close> builds the object and saves it. Both callers
  (views.py, line 94; tasks.py, line 573) pass vendor, account, amount, method and
  currency, and no fee. The attributes the caller does not give take the column defaults:
  status \<^verbatim>\<open>pending\<close>, the float \<^verbatim>\<open>0.00\<close> for the two fees, no timestamps, no
  references, \<^verbatim>\<open>retry_count\<close> 0. \<open>net\<close> is the \<^verbatim>\<open>net_amount\<close> the caller passes,
  if any.
\<close>

definition Payout_objects_create ::
  "database \<Rightarrow> uuid \<Rightarrow> nat \<Rightarrow> nat option \<Rightarrow> money \<Rightarrow> payout_method \<Rightarrow> money option
     \<Rightarrow> string
     \<Rightarrow> error + (database \<times> payout)" where
  "Payout_objects_create db u v acc amt method net cur =
     save_new db u
       \<lparr>payout_id = 0, vendor = v, payout_account = acc, amount = amt, currency = cur,
        payout_method = method, status = PENDING, commission_fee = Float_default,
        processing_fee = Float_default, net_amount = (case net of None \<Rightarrow> 0 | Some n \<Rightarrow> n),
        processed_at = None, completed_at = None, reference_number = [],
        processor_reference = None, failure_reason = None, retry_count = 0\<rparr>"

definition get_payout :: "database \<Rightarrow> nat \<Rightarrow> payout option" where
  "get_payout db i = find (\<lambda>p. payout_id p = i) (payouts db)"

section \<open>The 12 digits of a money column\<close>

text \<open>
  A column \<^verbatim>\<open>DecimalField(max_digits=12, decimal_places=2)\<close> holds the amounts of
  less than 10000000000.00 in absolute value, in cents the integers of at most 12 digits.
  The sources fix no database, and where a value of more digits is refused depends on
  it. The model refuses it where a row is loaded: the ORM's converter of a decimal column quantizes the stored
  value in a context of \<^verbatim>\<open>max_digits\<close> digits and raises
  \<^verbatim>\<open>decimal.InvalidOperation\<close> on a value that needs more; a write is not checked. The
  properties below that range over every balance or payout assume that the values read
  and the values written all fit, so that they do not depend on this choice.
\<close>

definition fits :: "money \<Rightarrow> bool" where
  "fits x \<longleftrightarrow> \<bar>x\<bar> < 10 ^ 12"

definition number_fits :: "number \<Rightarrow> bool" where
  "number_fits x = (case x of Decimal d \<Rightarrow> fits d | Float_default \<Rightarrow> True)"

definition payout_fits :: "payout \<Rightarrow> bool" where
  "payout_fits p \<longleftrightarrow>
     fits (amount p) \<and> number_fits (commission_fee p) \<and> number_fits (processing_fee p) \<and>
     fits (net_amount p)"

definition balance_fits :: "vendor_balance \<Rightarrow> bool" where
  "balance_fits b \<longleftrightarrow>
     fits (available_balance b) \<and> fits (pending_balance b) \<and> fits (total_earnings b) \<and>
     fits (total_payouts b) \<and> fits (on_hold_balance b)"

definition invalid_operation :: error where
  "invalid_operation = InvalidOperation ''[<class decimal.InvalidOperation>]''"

text \<open>
  \<^verbatim>\<open>Payout.objects.get(id=...)\<close> and the access \<^verbatim>\<open>vendor.balance\<close> of the one-to-one
  relation: the row is looked up and loaded.
\<close>

definition read_payout :: "database \<Rightarrow> nat \<Rightarrow> error + payout" where
  "read_payout db i =
     (case get_payout db i of
        None \<Rightarrow> Inl (DoesNotExist ''Payout matching query does not exist.'')
      | Some p \<Rightarrow> if payout_fits p then Inr p else Inl invalid_operation)"

definition read_balance :: "database \<Rightarrow> nat \<Rightarrow> error + vendor_balance" where
  "read_balance db v =
     (case balances db v of
        None \<Rightarrow> Inl (RelatedObjectDoesNotExist ''Vendor has no balance.'')
      | Some b \<Rightarrow> if balance_fits b then Inr b else Inl invalid_operation)"

section \<open>Creating a payout: serializer, processors and view\<close>

text \<open>
  Two comparisons of the source are between a \<^verbatim>\<open>Decimal\<close> and the float literal
  \<^verbatim>\<open>0.01\<close>. Python compares the exact values; the double nearest to 0.01 is the
  rational below, a little above one cent.
\<close>

definition float_0_01 :: rat where
  "float_0_01 = 5764607523034235 / 576460752303423488"

definition decimal_lt_float_0_01 :: "money \<Rightarrow> bool" where
  "decimal_lt_float_0_01 a \<longleftrightarrow> of_int a / 100 < float_0_01"

record payout_request =
  req_amount :: money
  req_payout_account_id :: int

text \<open>
  The declared field \<^verbatim>\<open>amount = DecimalField(max_digits=12, decimal_places=2,
  validators=[MinValueValidator(0.01)])\<close> of \<^verbatim>\<open>PayoutCreateSerializer\<close>: the request
  carries a parsed amount with two decimals; the field rejects an amount that does not
  fit the 12 digits (with one of the framework's digit messages, here the first) and a
  value below the limit.
\<close>

definition amount_field :: "money \<Rightarrow> error + money" where
  "amount_field a =
     (if \<not> \<bar>a\<bar> < 10 ^ 12
      then Inl (ValidationError ''amount'' ''Ensure that there are no more than 12 digits in total.'')
      else if decimal_lt_float_0_01 a
      then Inl (ValidationError ''amount'' ''Ensure this value is greater than or equal to 0.01.'')
      else Inr a)"

text \<open>
  \<^verbatim>\<open>VendorBalance.can_request_payout\<close> (models.py, lines 235 to 240).
  \<^verbatim>\<open>settings.MIN_PAYOUT_AMOUNT\<close> is not part of the sources; it is the parameter
  \<open>min_payout\<close>.
\<close>

definition can_request_payout :: "money \<Rightarrow> vendor_balance \<Rightarrow> money \<Rightarrow> bool" where
  "can_request_payout min_payout b a \<longleftrightarrow> available_balance b \<ge> a \<and> a \<ge> min_payout"

text \<open>
  \<^verbatim>\<open>PayoutCreateSerializer.validate\<close> (serializers.py, lines 60 to 87). The message of
  the balance error is the f-string \<^verbatim>\<open>f'... ${balance.minimum_payout_amount}.'\<close>, and
  \<^verbatim>\<open>VendorBalance\<close> has no such attribute (it is a column of \<^verbatim>\<open>PayoutSchedule\<close>):
  building the message raises \<^verbatim>\<open>AttributeError\<close> before any
  \<^verbatim>\<open>ValidationError\<close> exists.
\<close>

definition validate ::
  "database \<Rightarrow> money \<Rightarrow> nat \<Rightarrow> payout_request \<Rightarrow> error + payout_account" where
  "validate db min_payout v req =
     (case find (\<lambda>a. account_vendor a = v \<and> int (account_id a) = req_payout_account_id req)
             (payout_accounts db) of
        None \<Rightarrow> Inl (ValidationError ''payout_account_id'' ''Payout account not found.'')
      | Some acc \<Rightarrow>
          if verification_status acc \<noteq> Ver_VERIFIED
          then Inl (ValidationError ''payout_account_id'' ''Payout account must be verified.'')
          else (case read_balance db v of
                  Inl e \<Rightarrow> Inl e
                | Inr b \<Rightarrow>
                    if \<not> can_request_payout min_payout b (req_amount req)
                    then Inl (AttributeError
                           ''VendorBalance object has no attribute minimum_payout_amount'')
                    else Inr acc))"

text \<open>\<^verbatim>\<open>serializer.is_valid(raise_exception=True)\<close>: the fields, then \<^verbatim>\<open>validate\<close>.\<close>

definition is_valid ::
  "database \<Rightarrow> money \<Rightarrow> nat \<Rightarrow> payout_request \<Rightarrow> error + payout_account" where
  "is_valid db min_payout v req =
     (case amount_field (req_amount req) of
        Inl e \<Rightarrow> Inl e
      | Inr _ \<Rightarrow> validate db min_payout v req)"

text \<open>\<^verbatim>\<open>PayoutViewSet.get_payout_method\<close> and \<^verbatim>\<open>get_processor\<close> (views.py).\<close>

datatype processor = StripeProcessor | PayPalProcessor

fun get_payout_method :: "account_type \<Rightarrow> payout_method" where
  "get_payout_method Acc_BANK_ACCOUNT = BANK_TRANSFER"
| "get_payout_method Acc_PAYPAL = PAYPAL"
| "get_payout_method Acc_STRIPE = STRIPE"
| "get_payout_method Acc_CASH = MANUAL"

definition get_processor :: "account_type \<Rightarrow> error + processor" where
  "get_processor t =
     (if t \<in> set [Acc_BANK_ACCOUNT, Acc_STRIPE] then Inr StripeProcessor
      else if t = Acc_PAYPAL then Inr PayPalProcessor
      else Inl (CustomException ''Unsupported payout method.'' 400))"

text \<open>
  What the remote processor answers to the submission is an input: it accepts and returns
  a reference, or the call fails, for a transient reason (timeout, connection, 5xx, 429)
  or a permanent one (a 4xx rejection); the string is \<^verbatim>\<open>str(e)\<close> of the exception the
  client library raises.
\<close>

datatype api_reply = Api_ok string | Api_transient string | Api_permanent string

datatype processing_result = Success string | Failure string

definition truthy :: "string option \<Rightarrow> bool" where
  "truthy s \<longleftrightarrow> (case s of None \<Rightarrow> False | Some x \<Rightarrow> x \<noteq> [])"

text \<open>
  \<^verbatim>\<open>StripeProcessor.process_payout\<close>: every \<^verbatim>\<open>StripeError\<close> is caught and returned
  as \<^verbatim>\<open>{'success': False, 'error': str(e)}\<close>.
\<close>

definition Stripe_process_payout :: "payout_account \<Rightarrow> api_reply \<Rightarrow> processing_result" where
  "Stripe_process_payout acc reply =
     (if truthy (stripe_account_id acc)
      then (case reply of
              Api_ok r \<Rightarrow> Success r
            | Api_transient m \<Rightarrow> Failure m
            | Api_permanent m \<Rightarrow> Failure m)
      else Failure ''Stripe account not configured'')"

text \<open>
  \<^verbatim>\<open>PayPalProcessor.process_payout\<close> (paypal_processor.py, lines 275 to 327) returns a
  success or raises \<^verbatim>\<open>PayoutError\<close>: a \<^verbatim>\<open>PayPalError\<close> of the batch request, like any
  other exception, is caught and raised again as \<^verbatim>\<open>PayoutError\<close>. On success it stores
  the batch id on the payout and saves it.
\<close>

fun error_text :: "error \<Rightarrow> string" where
  "error_text (ValidationError f m) = m"
| "error_text (AttributeError m) = m"
| "error_text (CustomException m c) = m"
| "error_text (PayoutError m) = m"
| "error_text (IntegrityError m) = m"
| "error_text (RelatedObjectDoesNotExist m) = m"
| "error_text (TypeError m) = m"
| "error_text (KeyError m) = m"
| "error_text (DoesNotExist m) = m"
| "error_text (InvalidOperation m) = m"
| "error_text (OverflowError m) = m"

definition PayPal_process_payout ::
  "database \<Rightarrow> uuid \<Rightarrow> payout \<Rightarrow> payout_account \<Rightarrow> api_reply
     \<Rightarrow> error + (database \<times> payout \<times> processing_result)" where
  "PayPal_process_payout db u p acc reply =
     (if \<not> truthy (email acc) then Inl (PayoutError ''PayPal account email is required'')
      else if amount p \<le> 0 then Inl (PayoutError ''Payout amount must be positive'')
      else if decimal_lt_float_0_01 (amount p)
      then Inl (PayoutError ''Payout amount must be at least $0.01'')
      else if amount p > 1000000 then Inl (PayoutError ''Payout amount cannot exceed $10,000'')
      else (case reply of
              Api_ok r \<Rightarrow>
                (case save_loaded db u (p\<lparr>processor_reference := Some r\<rparr>) of
                   Inl e \<Rightarrow> Inl (PayoutError (''PayPal payout processing failed: '' @ error_text e))
                 | Inr (db', p') \<Rightarrow> Inr (db', p', Success r))
            | Api_transient m \<Rightarrow> Inl (PayoutError (''PayPal payout processing failed: '' @ m))
            | Api_permanent m \<Rightarrow> Inl (PayoutError (''PayPal payout processing failed: '' @ m))))"

text \<open>\<^verbatim>\<open>PayoutViewSet.update_vendor_balance\<close> (views.py, lines 149 to 153).\<close>

definition debit :: "money \<Rightarrow> vendor_balance \<Rightarrow> vendor_balance" where
  "debit a b = b\<lparr>available_balance := available_balance b - a,
                 total_payouts := total_payouts b + a\<rparr>"

definition update_vendor_balance :: "database \<Rightarrow> nat \<Rightarrow> money \<Rightarrow> error + database" where
  "update_vendor_balance db v a =
     (case read_balance db v of
        Inl e \<Rightarrow> Inl e
      | Inr b \<Rightarrow> Inr (db\<lparr>balances := (balances db)(v \<mapsto> debit a b)\<rparr>))"

text \<open>
  The two branches of \<^verbatim>\<open>PayoutViewSet.create\<close> after the processor call (views.py,
  lines 107 to 127); \<open>amt\<close> is the view's variable \<^verbatim>\<open>amount\<close>. The view returns the
  database it leaves behind together with the response or the exception: an exception
  does not undo what was written before it.
\<close>

definition on_success ::
  "database \<Rightarrow> uuid \<Rightarrow> payout \<Rightarrow> string \<Rightarrow> money \<Rightarrow> database \<times> (error + payout)" where
  "on_success db u p r amt =
     (case save_loaded db u (p\<lparr>status := PROCESSING, processor_reference := Some r\<rparr>) of
        Inl e \<Rightarrow> (db, Inl e)
      | Inr (db1, p1) \<Rightarrow>
          (case update_vendor_balance db1 (vendor p1) amt of
             Inl e \<Rightarrow> (db1, Inl e)
           | Inr db2 \<Rightarrow> (db2, Inr p1)))"

definition on_failure ::
  "database \<Rightarrow> uuid \<Rightarrow> payout \<Rightarrow> string \<Rightarrow> database \<times> (error + payout)" where
  "on_failure db u p m =
     (case save_loaded db u (p\<lparr>status := FAILED, failure_reason := Some m\<rparr>) of
        Inl e \<Rightarrow> (db, Inl e)
      | Inr (db1, p1) \<Rightarrow>
          (db1, Inl (CustomException (''Payout processing failed: '' @ m) 400)))"

text \<open>
  The second half of \<^verbatim>\<open>PayoutViewSet.create\<close> (views.py, lines 103 to 127): the
  processor is chosen and called for the payout \<open>p\<close> the first half has created, and
  the result is recorded.
\<close>

definition submit ::
  "database \<Rightarrow> uuid \<Rightarrow> payout \<Rightarrow> payout_account \<Rightarrow> api_reply \<Rightarrow> money
     \<Rightarrow> database \<times> (error + payout)" where
  "submit db u p acc reply amt =
     (case get_processor (account_type acc) of
        Inl e \<Rightarrow> (db, Inl e)
      | Inr StripeProcessor \<Rightarrow>
          (case Stripe_process_payout acc reply of
             Success r \<Rightarrow> on_success db u p r amt
           | Failure m \<Rightarrow> on_failure db u p m)
      | Inr PayPalProcessor \<Rightarrow>
          (case PayPal_process_payout db u p acc reply of
             Inl e \<Rightarrow> (db, Inl e)
           | Inr (db2, p2, Success r) \<Rightarrow> on_success db2 u p2 r amt
           | Inr (db2, p2, Failure m) \<Rightarrow> on_failure db2 u p2 m))"

text \<open>
  \<^verbatim>\<open>PayoutViewSet.create\<close> (views.py, lines 82 to 127) for the vendor \<open>v\<close> of the
  request: validation, creation of the payout (lines 94 to 101), submission. \<open>u\<close> is
  the UUID drawn by the first save; a later save of the same object finds the reference
  number set and draws none.
\<close>

definition create ::
  "database \<Rightarrow> money \<Rightarrow> nat \<Rightarrow> payout_request \<Rightarrow> uuid \<Rightarrow> api_reply
     \<Rightarrow> database \<times> (error + payout)" where
  "create db min_payout v req u reply =
     (case is_valid db min_payout v req of
        Inl e \<Rightarrow> (db, Inl e)
      | Inr acc \<Rightarrow>
          (case Payout_objects_create db u v (Some (account_id acc)) (req_amount req)
                  (get_payout_method (account_type acc)) (Some (req_amount req)) ''USD'' of
             Inl e \<Rightarrow> (db, Inl e)
           | Inr (db1, p) \<Rightarrow> submit db1 u p acc reply (req_amount req)))"

section \<open>The Celery tasks\<close>

text \<open>
  \<^verbatim>\<open>process_payout\<close> (tasks.py, lines 601 to 653). \<open>Task_retry\<close> is
  \<^verbatim>\<open>raise self.retry(...)\<close>: the broker delivers the task again later. The clock is
  read once per run (\<open>now\<close>). \<open>u\<close> and \<open>u'\<close> are the UUIDs a save would draw in the
  body and in the handler. \<open>mark_failed\<close> is the handler \<^verbatim>\<open>except Exception\<close> (lines 638
  to 653): it loads the payout again; \<^verbatim>\<open>Payout.DoesNotExist\<close> is passed over there, any
  other exception of the handler leaves the task.
\<close>

datatype task_result = Task_done | Task_retry | Task_raised error

definition mark_failed :: "database \<Rightarrow> uuid \<Rightarrow> nat \<Rightarrow> string \<Rightarrow> database \<times> task_result" where
  "mark_failed db u' pid msg =
     (case read_payout db pid of
        Inl e \<Rightarrow> (case e of DoesNotExist m \<Rightarrow> (db, Task_retry) | _ \<Rightarrow> (db, Task_raised e))
      | Inr q \<Rightarrow>
          (case save_loaded db u' (q\<lparr>status := FAILED, failure_reason := Some msg\<rparr>) of
             Inl e \<Rightarrow> (db, Task_raised e)
           | Inr (db1, q1) \<Rightarrow>
               (db1\<lparr>task_queue := task_queue db1 @ [Send_payout_failed_email pid msg]\<rparr>,
                Task_retry)))"

definition process_payout ::
  "database \<Rightarrow> timestamp \<Rightarrow> uuid \<Rightarrow> uuid \<Rightarrow> nat \<Rightarrow> database \<times> task_result" where
  "process_payout db now u u' pid =
     (case read_payout db pid of
        Inl e \<Rightarrow>
          (case e of
             DoesNotExist m \<Rightarrow> (db, Task_retry)
           | _ \<Rightarrow> mark_failed db u' pid (error_text e))
      | Inr p \<Rightarrow>
          (case save_loaded db u
                  (p\<lparr>status := COMPLETED, processed_at := Some now, completed_at := Some now,
                     processor_reference := Some (''PROC-'' @ reference_number p)\<rparr>) of
             Inl e \<Rightarrow> mark_failed db u' pid (error_text e)
           | Inr (db1, p1) \<Rightarrow>
               (case read_balance db1 (vendor p1) of
                  Inl e \<Rightarrow> mark_failed db1 u' pid (error_text e)
                | Inr b \<Rightarrow>
                    (db1\<lparr>balances := (balances db1)(vendor p1 \<mapsto> debit (amount p1) b),
                         task_queue := task_queue db1 @ [Send_payout_processed_email pid]\<rparr>,
                     Task_done))))"

text \<open>
  \<^verbatim>\<open>update_next_payout_date\<close> (tasks.py, lines 825 to 847): the next date is counted
  from the day of the run. \<^verbatim>\<open>date + timedelta\<close> raises \<^verbatim>\<open>OverflowError\<close> past
  \<^verbatim>\<open>date.max\<close>, the 31st of December 9999, day 2932896 of the epoch; the function logs
  the exception and raises it again.
\<close>

definition date_of :: "timestamp \<Rightarrow> date" where
  "date_of t = t div 86400"

definition max_date :: date where
  "max_date = 2932896"

definition add_days :: "date \<Rightarrow> int \<Rightarrow> error + date option" where
  "add_days d k =
     (if d + k > max_date then Inl (OverflowError ''date value out of range'')
      else Inr (Some (d + k)))"

fun next_date :: "schedule_type \<Rightarrow> date \<Rightarrow> error + date option" where
  "next_date Sch_WEEKLY today = add_days today 7"
| "next_date Sch_BI_WEEKLY today = add_days today 14"
| "next_date Sch_MONTHLY today = add_days today 30"
| "next_date Sch_MANUAL today = Inr None"

definition update_next_payout_date ::
  "database \<Rightarrow> timestamp \<Rightarrow> payout_schedule \<Rightarrow> error + database" where
  "update_next_payout_date db now s =
     (case next_date (schedule_type s) (date_of now) of
        Inl e \<Rightarrow> Inl e
      | Inr d \<Rightarrow>
          Inr (db\<lparr>payout_schedules :=
                    map (\<lambda>r. if schedule_id r = schedule_id s
                              then s\<lparr>next_payout_date := d, last_processed_at := Some now\<rparr>
                              else r)
                      (payout_schedules db)\<rparr>))"

text \<open>
  \<^verbatim>\<open>process_scheduled_payouts\<close> (tasks.py, lines 549 to 598). The query selects the
  due schedules and loads them with their vendors' balance rows
  (\<^verbatim>\<open>select_related('vendor', 'vendor__balance')\<close>) when the loop starts: a selected row
  that cannot be loaded makes the task raise before the first schedule is handled.
  \<open>sweep_schedule\<close> is the body of the loop for one schedule, with its
  \<^verbatim>\<open>try ... except Exception: continue\<close>: an exception, of \<^verbatim>\<open>vendor.balance\<close>, of
  \<^verbatim>\<open>Payout.objects.create\<close> or of \<^verbatim>\<open>update_next_payout_date\<close>, ends the handling
  of the schedule and keeps what was written before it. The clock is read once per run.
  \<open>uu\<close> gives the UUID drawn while the schedule of that id is handled. The function
  returns the database and \<^verbatim>\<open>processed_count\<close>.
\<close>

definition is_due :: "date \<Rightarrow> payout_schedule \<Rightarrow> bool" where
  "is_due today s \<longleftrightarrow>
     is_active s \<and> auto_process s \<and>
     (case next_payout_date s of None \<Rightarrow> False | Some d \<Rightarrow> d \<le> today)"

definition primary_account :: "database \<Rightarrow> nat \<Rightarrow> payout_account option" where
  "primary_account db v = find (\<lambda>a. account_vendor a = v \<and> is_primary a) (payout_accounts db)"

definition sweep_schedule ::
  "timestamp \<Rightarrow> uuid \<Rightarrow> payout_schedule \<Rightarrow> database \<times> nat \<Rightarrow> database \<times> nat" where
  "sweep_schedule now u s st =
     (case st of (db, processed_count) \<Rightarrow>
        (case balances db (schedule_vendor s) of
           None \<Rightarrow> (db, processed_count)
         | Some b \<Rightarrow>
             if available_balance b \<ge> minimum_payout_amount s
             then (case Payout_objects_create db u (schedule_vendor s)
                          (map_option account_id (primary_account db (schedule_vendor s)))
                          (available_balance b) BANK_TRANSFER None ''USD'' of
                     Inl e \<Rightarrow> (db, processed_count)
                   | Inr (db1, p) \<Rightarrow>
                       (let db2 = db1\<lparr>task_queue :=
                                       task_queue db1 @ [Process_payout (payout_id p)]\<rparr>
                        in case update_next_payout_date db2 now s of
                             Inl e \<Rightarrow> (db2, processed_count + 1)
                           | Inr db3 \<Rightarrow> (db3, processed_count + 1)))
             else (case update_next_payout_date db now s of
                     Inl e \<Rightarrow> (db, processed_count)
                   | Inr db1 \<Rightarrow> (db1, processed_count))))"

definition schedule_loads :: "database \<Rightarrow> payout_schedule \<Rightarrow> bool" where
  "schedule_loads db s \<longleftrightarrow>
     fits (minimum_payout_amount s) \<and>
     (case balances db (schedule_vendor s) of None \<Rightarrow> True | Some b \<Rightarrow> balance_fits b)"

definition process_scheduled_payouts ::
  "database \<Rightarrow> timestamp \<Rightarrow> (nat \<Rightarrow> uuid) \<Rightarrow> error + (database \<times> nat)" where
  "process_scheduled_payouts db now uu =
     (let due = filter (is_due (date_of now)) (payout_schedules db)
      in if list_all (schedule_loads db) due
         then Inr (fold (\<lambda>s. sweep_schedule now (uu (schedule_id s)) s) due (db, 0))
         else Inl invalid_operation)"

definition get_schedule :: "database \<Rightarrow> nat \<Rightarrow> payout_schedule option" where
  "get_schedule db i = find (\<lambda>r. schedule_id r = i) (payout_schedules db)"

section \<open>The PayPal webhook handler\<close>

text \<open>
  The payload is parsed JSON. \<^verbatim>\<open>x.get(...)\<close> on a value that is not a dict raises
  \<^verbatim>\<open>AttributeError\<close>; \<^verbatim>\<open>webhook_handler\<close> catches every exception of a handler and
  answers \<^verbatim>\<open>{'success': False, 'error': ...}\<close>. JSON numbers are modelled by
  integers.
\<close>

datatype json =
  JNull | JBool bool | JNum int | JStr string | JArr "json list" | JObj "(string \<times> json) list"

datatype webhook_result = Ack string | Nack string

definition dict_get :: "json \<Rightarrow> string \<Rightarrow> json \<Rightarrow> error + json" where
  "dict_get d k dflt =
     (case d of
        JObj kvs \<Rightarrow> Inr (case map_of kvs k of None \<Rightarrow> dflt | Some x \<Rightarrow> x)
      | _ \<Rightarrow> Inl (AttributeError ''object has no attribute get''))"

text \<open>
  \<^verbatim>\<open>_handle_payout_success\<close> (lines 722 to 742): the two lookups, a log line, and a
  \<^verbatim>\<open>try\<close> whose body is \<^verbatim>\<open>pass\<close> (the update of the payout is commented out).
\<close>

definition handle_payout_success :: "database \<Rightarrow> json \<Rightarrow> error + (database \<times> webhook_result)" where
  "handle_payout_success db resource =
     (case dict_get resource ''payout_item_id'' JNull of
        Inl e \<Rightarrow> Inl e
      | Inr payout_item_id \<Rightarrow>
          (case dict_get resource ''transaction_id'' JNull of
             Inl e \<Rightarrow> Inl e
           | Inr transaction_id \<Rightarrow> Inr (db, Ack ''Payout success processed'')))"

text \<open>\<^verbatim>\<open>_handle_payout_failed\<close> (lines 744 to 765), with \<^verbatim>\<open>errors[0].get('message', ...)\<close>.\<close>

fun first_error_message :: "json \<Rightarrow> error + unit" where
  "first_error_message JNull = Inr ()"
| "first_error_message (JBool b) =
     (if b then Inl (TypeError ''object of type bool has no len()'') else Inr ())"
| "first_error_message (JNum n) =
     (if n \<noteq> 0 then Inl (TypeError ''object of type int has no len()'') else Inr ())"
| "first_error_message (JStr s) =
     (if s \<noteq> [] then Inl (AttributeError ''str object has no attribute get'') else Inr ())"
| "first_error_message (JArr xs) =
     (case xs of
        [] \<Rightarrow> Inr ()
      | x # _ \<Rightarrow> (case dict_get x ''message'' (JStr ''Unknown error'') of
                    Inl e \<Rightarrow> Inl e
                  | Inr _ \<Rightarrow> Inr ()))"
| "first_error_message (JObj kvs) = (if kvs \<noteq> [] then Inl (KeyError ''0'') else Inr ())"

definition handle_payout_failed :: "database \<Rightarrow> json \<Rightarrow> error + (database \<times> webhook_result)" where
  "handle_payout_failed db resource =
     (case dict_get resource ''payout_item_id'' JNull of
        Inl e \<Rightarrow> Inl e
      | Inr payout_item_id \<Rightarrow>
          (case dict_get resource ''errors'' (JArr []) of
             Inl e \<Rightarrow> Inl e
           | Inr errors \<Rightarrow>
               (case first_error_message errors of
                  Inl e \<Rightarrow> Inl e
                | Inr _ \<Rightarrow> Inr (db, Ack ''Payout failure processed''))))"

definition handle_payout_cancelled :: "database \<Rightarrow> json \<Rightarrow> error + (database \<times> webhook_result)" where
  "handle_payout_cancelled db resource =
     (case dict_get resource ''payout_item_id'' JNull of
        Inl e \<Rightarrow> Inl e
      | Inr payout_item_id \<Rightarrow> Inr (db, Ack ''Payout cancellation processed''))"

definition batch_id :: "json \<Rightarrow> error + json" where
  "batch_id resource =
     (case dict_get resource ''batch_header'' (JObj []) of
        Inl e \<Rightarrow> Inl e
      | Inr h \<Rightarrow> dict_get h ''payout_batch_id'' JNull)"

definition handle_batch_success :: "database \<Rightarrow> json \<Rightarrow> error + (database \<times> webhook_result)" where
  "handle_batch_success db resource =
     (case batch_id resource of
        Inl e \<Rightarrow> Inl e
      | Inr _ \<Rightarrow> Inr (db, Ack ''Batch success processed''))"

definition handle_batch_denied :: "database \<Rightarrow> json \<Rightarrow> error + (database \<times> webhook_result)" where
  "handle_batch_denied db resource =
     (case batch_id resource of
        Inl e \<Rightarrow> Inl e
      | Inr _ \<Rightarrow> Inr (db, Ack ''Batch denial processed''))"

text \<open>
  \<^verbatim>\<open>webhook_handler\<close> (lines 687 to 720) on a payload that is a dict, given by its
  items.
\<close>

definition dispatch :: "database \<Rightarrow> json \<Rightarrow> json \<Rightarrow> error + (database \<times> webhook_result)" where
  "dispatch db event_type resource =
     (if event_type = JStr ''PAYMENT.PAYOUTS-ITEM.SUCCEEDED''
      then handle_payout_success db resource
      else if event_type = JStr ''PAYMENT.PAYOUTS-ITEM.FAILED''
      then handle_payout_failed db resource
      else if event_type = JStr ''PAYMENT.PAYOUTS-ITEM.CANCELED''
      then handle_payout_cancelled db resource
      else if event_type = JStr ''PAYMENT.PAYOUTSBATCH.SUCCEEDED''
      then handle_batch_success db resource
      else if event_type = JStr ''PAYMENT.PAYOUTSBATCH.DENIED''
      then handle_batch_denied db resource
      else Inr (db, Ack ''Webhook received but not processed''))"

definition webhook_handler ::
  "database \<Rightarrow> (string \<times> json) list \<Rightarrow> database \<times> webhook_result" where
  "webhook_handler db webhook_data =
     (let event_type = (case map_of webhook_data ''event_type'' of
                          None \<Rightarrow> JStr [] | Some x \<Rightarrow> x);
          resource = (case map_of webhook_data ''resource'' of
                        None \<Rightarrow> JObj [] | Some x \<Rightarrow> x)
      in case dispatch db event_type resource of
           Inl e \<Rightarrow> (db, Nack (error_text e))
         | Inr r \<Rightarrow> r)"

section \<open>Concrete data\<close>

text \<open>Two version-4 UUIDs with the same leading 32 bits, and the times of two runs.\<close>

definition uuid_a :: uuid where "uuid_a = 0x3fa85f6457174562b3fc2c963f66afa6"

definition uuid_b :: uuid where "uuid_b = 0x3fa85f6400004000a000000000000001"

definition time_1 :: timestamp where "time_1 = 1728021600"

definition time_2 :: timestamp where "time_2 = 1728025200"

text \<open>
  Vendor 1 with an available balance of 100.00 and four payout accounts: a verified
  primary Stripe account, a verified cash account, an unverified PayPal account and a
  verified PayPal account.
\<close>

definition balance_100 :: vendor_balance where
  "balance_100 = \<lparr>available_balance = 10000, pending_balance = 0, total_earnings = 10000,
                    total_payouts = 0, on_hold_balance = 0\<rparr>"

definition acct_stripe :: payout_account where
  "acct_stripe = \<lparr>account_id = 1, account_vendor = 1, account_type = Acc_STRIPE,
                    is_primary = True, verification_status = Ver_VERIFIED, email = None,
                    stripe_account_id = Some ''acct_1''\<rparr>"

definition acct_cash :: payout_account where
  "acct_cash = \<lparr>account_id = 2, account_vendor = 1, account_type = Acc_CASH,
                  is_primary = False, verification_status = Ver_VERIFIED, email = None,
                  stripe_account_id = None\<rparr>"

definition acct_unverified :: payout_account where
  "acct_unverified = \<lparr>account_id = 3, account_vendor = 1, account_type = Acc_PAYPAL,
                        is_primary = False, verification_status = Ver_PENDING,
                        email = Some ''v@example.com'', stripe_account_id = None\<rparr>"

definition acct_paypal :: payout_account where
  "acct_paypal = \<lparr>account_id = 4, account_vendor = 1, account_type = Acc_PAYPAL,
                    is_primary = False, verification_status = Ver_VERIFIED,
                    email = Some ''v@example.com'', stripe_account_id = None\<rparr>"

definition db_a :: database where
  "db_a = \<lparr>balances = [1 \<mapsto> balance_100],
            payout_accounts = [acct_stripe, acct_cash, acct_unverified, acct_paypal],
            payouts = [], payout_schedules = [], task_queue = []\<rparr>"

text \<open>
  A stored payout of 100.00 as the table holds it (decimal fees), and variants of it: of
  150.00, failed, in processing through PayPal.
\<close>

definition payout_a :: payout where
  "payout_a = \<lparr>payout_id = 1, vendor = 1, payout_account = Some 1, amount = 10000,
                 currency = ''USD'', payout_method = BANK_TRANSFER, status = PENDING,
                 commission_fee = Decimal 0, processing_fee = Decimal 0, net_amount = 10000,
                 processed_at = None, completed_at = None,
                 reference_number = ''PO-3FA85F64'', processor_reference = None,
                 failure_reason = None, retry_count = 0\<rparr>"

definition db_b :: database where
  "db_b = db_a\<lparr>payouts := [payout_a]\<rparr>"

definition payout_150 :: payout where
  "payout_150 = payout_a\<lparr>amount := 15000, net_amount := 15000\<rparr>"

definition db_150 :: database where
  "db_150 = db_a\<lparr>payouts := [payout_150]\<rparr>"

definition payout_f :: payout where
  "payout_f = payout_a\<lparr>status := FAILED, failure_reason := Some ''timeout''\<rparr>"


definition payout_paypal :: payout where
  "payout_paypal = payout_a\<lparr>payout_account := Some 4, payout_method := PAYPAL\<rparr>"

definition payout_processing :: payout where
  "payout_processing = payout_paypal\<lparr>status := PROCESSING,
      processor_reference := Some ''BATCH-1''\<rparr>"

definition db_p :: database where
  "db_p = db_a\<lparr>payouts := [payout_processing]\<rparr>"

text \<open>
  The same stored payout for a vendor whose \<open>total_payouts\<close> is 9999999999.99, the
  largest value of the column.
\<close>

definition balance_limit :: vendor_balance where
  "balance_limit = balance_100\<lparr>total_payouts := 999999999999\<rparr>"

definition db_limit :: database where
  "db_limit = db_b\<lparr>balances := [1 \<mapsto> balance_limit]\<rparr>"

text \<open>Requests of 5.00, 60.00 and 150.00 against the account of the given id.\<close>

definition request_5 :: "int \<Rightarrow> payout_request" where
  "request_5 i = \<lparr>req_amount = 500, req_payout_account_id = i\<rparr>"

definition request_60 :: "int \<Rightarrow> payout_request" where
  "request_60 i = \<lparr>req_amount = 6000, req_payout_account_id = i\<rparr>"

definition request_150 :: "int \<Rightarrow> payout_request" where
  "request_150 i = \<lparr>req_amount = 15000, req_payout_account_id = i\<rparr>"

text \<open>Webhook payloads, and the event types \<^verbatim>\<open>webhook_handler\<close> dispatches on.\<close>

definition webhook_succeeded :: "(string \<times> json) list" where
  "webhook_succeeded =
     [(''event_type'', JStr ''PAYMENT.PAYOUTS-ITEM.SUCCEEDED''),
      (''resource'', JObj [(''payout_item_id'', JStr ''BATCH-1''),
                           (''transaction_id'', JStr ''TX-1'')])]"

definition webhook_unknown :: "(string \<times> json) list" where
  "webhook_unknown =
     [(''event_type'', JStr ''CUSTOMER.DISPUTE.CREATED''), (''resource'', JStr ''x'')]"

definition handled_event_types :: "json list" where
  "handled_event_types =
     [JStr ''PAYMENT.PAYOUTS-ITEM.SUCCEEDED'', JStr ''PAYMENT.PAYOUTS-ITEM.FAILED'',
      JStr ''PAYMENT.PAYOUTS-ITEM.CANCELED'', JStr ''PAYMENT.PAYOUTSBATCH.SUCCEEDED'',
      JStr ''PAYMENT.PAYOUTSBATCH.DENIED'']"

text \<open>
  The row \<^verbatim>\<open>process_payout\<close> writes back for a stored payout with the decimal fees
  \<open>c\<close> and \<open>f\<close>: completed, stamped with the time of the run, with the processor
  reference derived from the reference number.
\<close>

definition completed :: "timestamp \<Rightarrow> money \<Rightarrow> money \<Rightarrow> payout \<Rightarrow> payout" where
  "completed now c f p =
     p\<lparr>status := COMPLETED, processed_at := Some now, completed_at := Some now,
       processor_reference := Some (''PROC-'' @ reference_number p),
       net_amount := amount p - c - f\<rparr>"

text \<open>
  Schedules due on day 20000 (the day of \<open>time_1\<close>): a weekly one of vendor 1 with a
  minimum of 50.00, which the balance of 100.00 reaches, and a monthly one of a vendor 2
  with a minimum of 200.00, above the balance of 100.00.
\<close>

text \<open>
  The interval of a cadence in days, none for a manual schedule, and a schedule moved by
  it from the day of a run.
\<close>

definition cadence_interval :: "schedule_type \<Rightarrow> int option" where
  "cadence_interval t =
     (case t of Sch_WEEKLY \<Rightarrow> Some 7 | Sch_BI_WEEKLY \<Rightarrow> Some 14 | Sch_MONTHLY \<Rightarrow> Some 30
      | Sch_MANUAL \<Rightarrow> None)"

definition advanced :: "timestamp \<Rightarrow> payout_schedule \<Rightarrow> payout_schedule" where
  "advanced now s =
     s\<lparr>next_payout_date := map_option (\<lambda>k. date_of now + k) (cadence_interval (schedule_type s)),
       last_processed_at := Some now\<rparr>"

definition schedule_a :: payout_schedule where
  "schedule_a = \<lparr>schedule_id = 1, schedule_vendor = 1, schedule_type = Sch_WEEKLY,
                   is_active = True, next_payout_date = Some 20000,
                   minimum_payout_amount = 5000, auto_process = True,
                   last_processed_at = None\<rparr>"

definition db_s :: database where
  "db_s = db_a\<lparr>payout_schedules := [schedule_a]\<rparr>"

definition schedule_b :: payout_schedule where
  "schedule_b = schedule_a\<lparr>schedule_id := 2, schedule_vendor := 2,
                           schedule_type := Sch_MONTHLY, minimum_payout_amount := 20000\<rparr>"

definition db_two :: database where
  "db_two = db_a\<lparr>balances := [1 \<mapsto> balance_100, 2 \<mapsto> balance_100],
                  payout_schedules := [schedule_a, schedule_b]\<rparr>"

section \<open>Properties of saving\<close>









lemma new_reference_number_uuid_a: "new_reference_number uuid_a = ''PO-3FA85F64''"
  by code_simp




text \<open>\<^verbatim>\<open>Payout.save\<close> succeeds exactly on decimal fees, and what it returns.\<close>

lemma Payout_save_decimal:
  "commission_fee p = Decimal c \<Longrightarrow> processing_fee p = Decimal f \<Longrightarrow>
   Payout_save u p =
     Inr (p\<lparr>reference_number := (if reference_number p = [] then new_reference_number u
                                  else reference_number p),
            net_amount := amount p - c - f\<rparr>)"
  by (simp add: Payout_save_def decimal_sub_def Let_def)

lemma Payout_save_float:
  "commission_fee p = Float_default \<or> processing_fee p = Float_default \<Longrightarrow>
   Payout_save u p
     = Inl (TypeError ''unsupported operand type(s) for -: decimal.Decimal and float'')"
  by (auto simp: Payout_save_def decimal_sub_def Let_def split: number.splits)

lemma Payout_save_Inr:
  "Payout_save u p = Inr q \<Longrightarrow>
   \<exists>c f. commission_fee p = Decimal c \<and> processing_fee p = Decimal f
     \<and> q = p\<lparr>reference_number := (if reference_number p = [] then new_reference_number u
                                   else reference_number p),
             net_amount := amount p - c - f\<rparr>"
  by (auto simp: Payout_save_def decimal_sub_def Let_def split: number.splits if_splits)

lemma save_ignores_net: "Payout_save u (p\<lparr>net_amount := n\<rparr>) = Payout_save u p"
  by (simp add: Payout_save_def Let_def split: sum.splits)

lemma insert_payout_Inr:
  "insert_payout db p = Inr (db', q) \<Longrightarrow>
     q = p\<lparr>payout_id := new_payout_id (payouts db)\<rparr> \<and> db' = db\<lparr>payouts := payouts db @ [q]\<rparr>
     \<and> reference_number p \<notin> reference_number ` set (payouts db)"
  by (auto simp: insert_payout_def Let_def list_ex_iff split: if_splits)

lemma save_new_Inr:
  "save_new db u p = Inr (db', q) \<Longrightarrow>
   \<exists>q0. Payout_save u p = Inr q0 \<and> q = q0\<lparr>payout_id := new_payout_id (payouts db)\<rparr>
     \<and> db' = db\<lparr>payouts := payouts db @ [q]\<rparr>
     \<and> reference_number q0 \<notin> reference_number ` set (payouts db)"
  by (auto simp: save_new_def split: sum.splits dest!: insert_payout_Inr)

lemma save_loaded_Inr:
  "save_loaded db u p = Inr (db', q) \<Longrightarrow>
     Payout_save u p = Inr q \<and>
     db' = db\<lparr>payouts := map (\<lambda>r. if payout_id r = payout_id q then q else r) (payouts db)\<rparr>"
  by (auto simp: save_loaded_def update_payout_def Let_def split: sum.splits if_splits)

lemma payout_id_Payout_save: "Payout_save u p = Inr q \<Longrightarrow> payout_id q = payout_id p"
  by (auto dest!: Payout_save_Inr)

text \<open>
  Claim C6. Whenever a save of a payout goes through, the payout it stores has
  \<open>net_amount = amount - commission_fee - processing_fee\<close>, whatever \<open>net_amount\<close>
  the object carried: the value the caller supplied has no influence on
  \<^verbatim>\<open>Payout.save\<close>, and the row an insert writes, like the row an update leaves in the
  table, carries the recomputed value.
\<close>

theorem net_amount_recomputed_on_every_save:
  "Payout_save u (p\<lparr>net_amount := n\<rparr>) = Payout_save u p
   \<and> (Payout_save u p = Inr q \<longrightarrow>
        (\<exists>c f. commission_fee q = Decimal c \<and> processing_fee q = Decimal f
           \<and> net_amount q = amount q - c - f)
        \<and> amount q = amount p \<and> commission_fee q = commission_fee p
        \<and> processing_fee q = processing_fee p)
   \<and> (save_new db u p = Inr (db', q') \<longrightarrow>
        q' \<in> set (payouts db')
        \<and> (\<exists>c f. commission_fee q' = Decimal c \<and> processing_fee q' = Decimal f
             \<and> net_amount q' = amount q' - c - f))
   \<and> (save_loaded db u p = Inr (db'', q'') \<longrightarrow>
        (\<forall>r\<in>set (payouts db''). payout_id r = payout_id p \<longrightarrow>
           (\<exists>c f. commission_fee r = Decimal c \<and> processing_fee r = Decimal f
              \<and> net_amount r = amount r - c - f)))"
proof (intro conjI impI)
  show "Payout_save u (p\<lparr>net_amount := n\<rparr>) = Payout_save u p"
    by (rule save_ignores_net)
next
  assume "Payout_save u p = Inr q"
  from Payout_save_Inr [OF this]
  show "\<exists>c f. commission_fee q = Decimal c \<and> processing_fee q = Decimal f
           \<and> net_amount q = amount q - c - f"
    and "amount q = amount p" and "commission_fee q = commission_fee p"
    and "processing_fee q = processing_fee p"
    by auto
next
  assume a: "save_new db u p = Inr (db', q')"
  from save_new_Inr [OF a] obtain q0 where q0: "Payout_save u p = Inr q0"
    and q': "q' = q0\<lparr>payout_id := new_payout_id (payouts db)\<rparr>"
    and db': "db' = db\<lparr>payouts := payouts db @ [q']\<rparr>"
    by blast
  show "q' \<in> set (payouts db')"
    by (simp add: db')
  from Payout_save_Inr [OF q0]
  show "\<exists>c f. commission_fee q' = Decimal c \<and> processing_fee q' = Decimal f
             \<and> net_amount q' = amount q' - c - f"
    unfolding q' by auto
next
  assume a: "save_loaded db u p = Inr (db'', q'')"
  from save_loaded_Inr [OF a] have s: "Payout_save u p = Inr q''"
    and db'': "db'' = db\<lparr>payouts := map (\<lambda>r. if payout_id r = payout_id q'' then q'' else r)
                          (payouts db)\<rparr>"
    by simp_all
  have id: "payout_id q'' = payout_id p"
    using s by (rule payout_id_Payout_save)
  from Payout_save_Inr [OF s]
  have net: "\<exists>c f. commission_fee q'' = Decimal c \<and> processing_fee q'' = Decimal f
              \<and> net_amount q'' = amount q'' - c - f"
    by auto
  show "\<forall>r\<in>set (payouts db''). payout_id r = payout_id p \<longrightarrow>
           (\<exists>c f. commission_fee r = Decimal c \<and> processing_fee r = Decimal f
              \<and> net_amount r = amount r - c - f)"
    using net id by (auto simp: db'')
qed

lemma save_new_payout_a:
  "save_new db_a uuid_a (payout_a\<lparr>payout_id := 0, reference_number := [], net_amount := 1\<rparr>)
     = Inr (db_a\<lparr>payouts := [payout_a]\<rparr>, payout_a)"
  by (simp add: save_new_def insert_payout_def Payout_save_def decimal_sub_def
      new_reference_number_uuid_a db_a_def payout_a_def new_payout_id_def Let_def)

lemma save_loaded_payout_a:
  "save_loaded db_b uuid_b (payout_a\<lparr>commission_fee := Decimal 500, net_amount := 1\<rparr>)
     = Inr (db_b\<lparr>payouts := [payout_a\<lparr>commission_fee := Decimal 500, net_amount := 9500\<rparr>]\<rparr>,
            payout_a\<lparr>commission_fee := Decimal 500, net_amount := 9500\<rparr>)"
  by (simp add: save_loaded_def update_payout_def Payout_save_def decimal_sub_def db_b_def
      payout_a_def Let_def)

theorem net_amount_recomputed_on_every_save_witness:
  "Payout_save uuid_a (payout_a\<lparr>net_amount := 1\<rparr>) = Inr payout_a
   \<and> net_amount payout_a = 10000
   \<and> save_new db_a uuid_a (payout_a\<lparr>payout_id := 0, reference_number := [], net_amount := 1\<rparr>)
       = Inr (db_a\<lparr>payouts := [payout_a]\<rparr>, payout_a)
   \<and> save_loaded db_b uuid_b (payout_a\<lparr>commission_fee := Decimal 500, net_amount := 1\<rparr>)
       = Inr (db_b\<lparr>payouts := [payout_a\<lparr>commission_fee := Decimal 500, net_amount := 9500\<rparr>]\<rparr>,
              payout_a\<lparr>commission_fee := Decimal 500, net_amount := 9500\<rparr>)
   \<and> map net_amount
        (payouts (db_b\<lparr>payouts := [payout_a\<lparr>commission_fee := Decimal 500, net_amount := 9500\<rparr>]\<rparr>))
       = [9500]"
proof -
  have h0: "Payout_save uuid_a (payout_a\<lparr>net_amount := 1\<rparr>) = Inr payout_a"
    by (simp add: Payout_save_def decimal_sub_def payout_a_def Let_def)
  note t1 = net_amount_recomputed_on_every_save [where u = uuid_a
      and p = "payout_a\<lparr>payout_id := 0, reference_number := [], net_amount := 1\<rparr>"
      and db = db_a and db' = "db_a\<lparr>payouts := [payout_a]\<rparr>" and q' = payout_a]
  note t2 = net_amount_recomputed_on_every_save [where u = uuid_b
      and p = "payout_a\<lparr>commission_fee := Decimal 500, net_amount := 1\<rparr>" and db = db_b
      and db'' = "db_b\<lparr>payouts := [payout_a\<lparr>commission_fee := Decimal 500, net_amount := 9500\<rparr>]\<rparr>"
      and q'' = "payout_a\<lparr>commission_fee := Decimal 500, net_amount := 9500\<rparr>"]
  have c1: "payout_a \<in> set (payouts (db_a\<lparr>payouts := [payout_a]\<rparr>))"
    using t1 save_new_payout_a by blast
  have c2: "\<forall>r\<in>set (payouts (db_b\<lparr>payouts := [payout_a\<lparr>commission_fee := Decimal 500, net_amount := 9500\<rparr>]\<rparr>)).
        payout_id r = payout_id (payout_a\<lparr>commission_fee := Decimal 500, net_amount := 1\<rparr>) \<longrightarrow>
           (\<exists>c f. commission_fee r = Decimal c \<and> processing_fee r = Decimal f
              \<and> net_amount r = amount r - c - f)"
    using t2 save_loaded_payout_a by blast
  have c3: "net_amount payout_a = 10000"
    by (simp add: payout_a_def)
  have c4: "map net_amount
        (payouts (db_b\<lparr>payouts := [payout_a\<lparr>commission_fee := Decimal 500, net_amount := 9500\<rparr>]\<rparr>))
       = [9500]"
    using c2 by simp
  from h0 save_new_payout_a save_loaded_payout_a c3 c4 show ?thesis
    by blast
qed




section \<open>Properties of creating a payout\<close>

text \<open>
  \<^verbatim>\<open>Payout.objects.create\<close> as the view and the sweep call it, without fees, always
  raises: the object holds the float fee defaults, and \<^verbatim>\<open>Payout.save\<close> fails at the
  subtraction, before the insert.
\<close>

lemma Payout_objects_create_raises:
  "Payout_objects_create db u v acc amt method net cur
     = Inl (TypeError ''unsupported operand type(s) for -: decimal.Decimal and float'')"
  by (simp add: Payout_objects_create_def save_new_def Payout_save_float)

lemma create_cases:
  "create db min_payout v req u reply =
     (db, case is_valid db min_payout v req of
            Inl e \<Rightarrow> Inl e
          | Inr acc \<Rightarrow>
              Inl (TypeError ''unsupported operand type(s) for -: decimal.Decimal and float''))"
  by (simp add: create_def Payout_objects_create_raises split: sum.splits)

lemma decimal_lt_float_0_01_iff: "decimal_lt_float_0_01 a \<longleftrightarrow> a \<le> 1"
proof (cases "a \<le> 1")
  case True
  then have "(of_int a :: rat) \<le> 1" by simp
  then show ?thesis
    using True unfolding decimal_lt_float_0_01_def float_0_01_def by (simp add: field_simps)
next
  case False
  then have "2 \<le> a" by simp
  then have "(2 :: rat) \<le> of_int a" by (metis of_int_le_iff of_int_numeral)
  then show ?thesis
    using False unfolding decimal_lt_float_0_01_def float_0_01_def by (simp add: field_simps)
qed

lemmas example_defs = db_a_def acct_stripe_def acct_cash_def acct_unverified_def
  acct_paypal_def balance_100_def request_5_def request_60_def request_150_def

lemmas validation_defs = is_valid_def validate_def amount_field_def can_request_payout_def
  read_balance_def balance_fits_def fits_def decimal_lt_float_0_01_iff


lemma is_valid_request_60_cash: "is_valid db_a 1000 1 (request_60 2) = Inr acct_cash"
  by (simp add: validation_defs example_defs)

lemma is_valid_request_150_stripe:
  "is_valid db_a 1000 1 (request_150 1)
     = Inl (AttributeError ''VendorBalance object has no attribute minimum_payout_amount'')"
  by (simp add: validation_defs example_defs)

lemma is_valid_request_5_stripe:
  "is_valid db_a 1000 1 (request_5 1)
     = Inl (AttributeError ''VendorBalance object has no attribute minimum_payout_amount'')"
  by (simp add: validation_defs example_defs)

lemma balances_db_a: "balances db_a 1 = Some balance_100"
  by (simp add: example_defs)

text \<open>
  What is true of every request: \<^verbatim>\<open>PayoutViewSet.create\<close> raises and writes nothing
  (the insert is never reached), and the debit of the view, were it reached, is of an
  amount the serializer has checked against the available balance.
\<close>

lemma create_never_writes:
  "fst (create db min_payout v req u reply) = db \<and> isl (snd (create db min_payout v req u reply))"
  by (simp add: create_cases split: sum.splits)

lemma view_debit_is_guarded:
  "is_valid db min_payout v req = Inr acc \<Longrightarrow>
   \<exists>b. balances db v = Some b \<and> 0 \<le> available_balance (debit (req_amount req) b)"
  by (auto simp: is_valid_def validate_def can_request_payout_def debit_def read_balance_def
      split: sum.splits option.splits if_splits)

text \<open>
  Claim C3 at the requests it is about. Vendor 1 has an available balance of 100.00 and
  a verified Stripe account, and the platform minimum is 10.00. A request of 150.00
  (more than the balance) and a request of 5.00 (below the minimum) reach the balance
  check of \<^verbatim>\<open>PayoutCreateSerializer.validate\<close>, which fails, and the exception that
  leaves \<^verbatim>\<open>PayoutViewSet.create\<close> is \<^verbatim>\<open>AttributeError\<close>, raised while the message
  of the validation error is built (serializers.py, line 83): no validation error is
  reported. No payout row is created and the balance is unchanged.
\<close>

theorem create_insufficient_balance_raises_AttributeError:
  "find (\<lambda>a. account_vendor a = 1 \<and> int (account_id a) = 1) (payout_accounts db_a)
     = Some acct_stripe
   \<and> verification_status acct_stripe = Ver_VERIFIED
   \<and> map_option available_balance (balances db_a 1) = Some 10000
   \<and> req_amount (request_150 1) = 15000
   \<and> req_amount (request_5 1) = 500
   \<and> create db_a 1000 1 (request_150 1) uuid_a (Api_ok ''tr_1'')
       = (db_a, Inl (AttributeError
                      ''VendorBalance object has no attribute minimum_payout_amount''))
   \<and> create db_a 1000 1 (request_5 1) uuid_a (Api_ok ''tr_1'')
       = (db_a, Inl (AttributeError
                      ''VendorBalance object has no attribute minimum_payout_amount''))"
  unfolding create_cases is_valid_request_150_stripe is_valid_request_5_stripe
  by (simp add: example_defs)


text \<open>
  Claim C9 at the request it names: 60.00 against the verified cash account of vendor 1,
  whose available balance is 100.00. The serializer accepts the request: no validation
  looks at the type of the account. The rejection of an account without a processor is
  that of \<^verbatim>\<open>get_processor\<close> (views.py, line 104), which the view calls after
  \<^verbatim>\<open>Payout.objects.create\<close> (line 94). The request ends at line 94 with
  \<^verbatim>\<open>TypeError\<close>, an unhandled exception and not a rejection of the request as
  invalid.
\<close>

theorem create_cash_account_raises_TypeError:
  "account_type acct_cash = Acc_CASH
   \<and> is_valid db_a 1000 1 (request_60 2) = Inr acct_cash
   \<and> get_processor (account_type acct_cash)
       = Inl (CustomException ''Unsupported payout method.'' 400)
   \<and> create db_a 1000 1 (request_60 2) uuid_a (Api_ok ''tr_1'')
       = (db_a, Inl (TypeError
                      ''unsupported operand type(s) for -: decimal.Decimal and float''))"
  unfolding create_cases is_valid_request_60_cash
  by (simp add: get_processor_def example_defs)

text \<open>
  The rejection of \<^verbatim>\<open>get_processor\<close> comes in the second half of the view, when the
  payout \<open>p\<close> is already a row of the table, and it leaves the table as it is: the row
  stays.
\<close>

lemma submit_unsupported_account_keeps_row:
  "account_type acc = Acc_CASH \<Longrightarrow>
   submit db u p acc reply amt = (db, Inl (CustomException ''Unsupported payout method.'' 400))"
  by (simp add: submit_def get_processor_def)

section \<open>Properties of the webhook handler\<close>

lemma webhook_handler_keeps_database: "fst (webhook_handler db data) = db"
  by (auto simp: webhook_handler_def dispatch_def handle_payout_success_def
      handle_payout_failed_def handle_payout_cancelled_def handle_batch_success_def
      handle_batch_denied_def Let_def split: sum.splits)

text \<open>
  Claim C5 fails as stated: after the notification of a successful payout item, the
  payout it names is still \<open>PROCESSING\<close> and has no \<open>completed_at\<close>.
\<close>

theorem webhook_success_changes_nothing:
  "webhook_handler db_p webhook_succeeded = (db_p, Ack ''Payout success processed'')
   \<and> map status (payouts db_p) = [PROCESSING]
   \<and> map completed_at (payouts db_p) = [None]
   \<and> map processor_reference (payouts db_p) = [Some ''BATCH-1'']"
  by (simp add: webhook_handler_def dispatch_def handle_payout_success_def dict_get_def
      webhook_succeeded_def db_p_def payout_processing_def payout_paypal_def payout_a_def)

text \<open>
  Claim C5 as amended. \<^verbatim>\<open>webhook_handler\<close> never changes a payout or a balance. A
  notification of a successful payout item whose resource is a dict is acknowledged with
  success and the message \<open>Payout success processed\<close>; an event type that is none of
  the five handled ones is acknowledged with success and the message
  \<open>Webhook received but not processed\<close>.
\<close>

theorem webhook_acknowledges_without_update:
  "fst (webhook_handler db data) = db
   \<and> (map_of data ''event_type'' = Some (JStr ''PAYMENT.PAYOUTS-ITEM.SUCCEEDED'')
        \<and> map_of data ''resource'' = Some (JObj kvs) \<longrightarrow>
      webhook_handler db data = (db, Ack ''Payout success processed''))
   \<and> ((case map_of data ''event_type'' of None \<Rightarrow> JStr [] | Some x \<Rightarrow> x)
        \<notin> set handled_event_types \<longrightarrow>
      webhook_handler db data = (db, Ack ''Webhook received but not processed''))"
  by (simp add: webhook_handler_keeps_database)
    (auto simp: webhook_handler_def dispatch_def handle_payout_success_def dict_get_def
      handled_event_types_def Let_def)

theorem webhook_acknowledges_without_update_witness:
  "map_of webhook_succeeded ''event_type'' = Some (JStr ''PAYMENT.PAYOUTS-ITEM.SUCCEEDED'')
   \<and> map_of webhook_succeeded ''resource''
       = Some (JObj [(''payout_item_id'', JStr ''BATCH-1''), (''transaction_id'', JStr ''TX-1'')])
   \<and> webhook_handler db_p webhook_succeeded = (db_p, Ack ''Payout success processed'')
   \<and> (case map_of webhook_unknown ''event_type'' of None \<Rightarrow> JStr [] | Some x \<Rightarrow> x)
        \<notin> set handled_event_types
   \<and> webhook_handler db_p webhook_unknown = (db_p, Ack ''Webhook received but not processed'')"
proof -
  have h1: "map_of webhook_succeeded ''event_type'' = Some (JStr ''PAYMENT.PAYOUTS-ITEM.SUCCEEDED'')
   \<and> map_of webhook_succeeded ''resource''
       = Some (JObj [(''payout_item_id'', JStr ''BATCH-1''), (''transaction_id'', JStr ''TX-1'')])"
    by (simp add: webhook_succeeded_def)
  have h2: "(case map_of webhook_unknown ''event_type'' of None \<Rightarrow> JStr [] | Some x \<Rightarrow> x)
        \<notin> set handled_event_types"
    by (simp add: webhook_unknown_def handled_event_types_def)
  from h1 h2
    webhook_acknowledges_without_update [of db_p webhook_succeeded
      "[(''payout_item_id'', JStr ''BATCH-1''), (''transaction_id'', JStr ''TX-1'')]"]
    webhook_acknowledges_without_update [of db_p webhook_unknown "[]"]
  show ?thesis by simp
qed
section \<open>Properties of the payout task\<close>

text \<open>
  A save of a payout as the table holds it (decimal fees, an account, a reference number
  no other row has) goes through and replaces the row.
\<close>

lemma save_loaded_stored:
  assumes "commission_fee p = Decimal c" and "processing_fee p = Decimal f"
    and "payout_account p \<noteq> None" and "reference_number p \<noteq> []"
    and "\<not> list_ex (\<lambda>q. payout_id q \<noteq> payout_id p \<and> reference_number q = reference_number p)
             (payouts db)"
  shows "save_loaded db u p =
     Inr (db\<lparr>payouts := map (\<lambda>r. if payout_id r = payout_id p
                                 then p\<lparr>net_amount := amount p - c - f\<rparr> else r) (payouts db)\<rparr>,
          p\<lparr>net_amount := amount p - c - f\<rparr>)"
  using assms
  by (simp add: save_loaded_def update_payout_def Payout_save_decimal [of p c f u])

lemma get_payout_Some: "get_payout db pid = Some p \<Longrightarrow> payout_id p = pid \<and> p \<in> set (payouts db)"
  by (auto simp: get_payout_def find_Some_iff in_set_conv_nth)

lemma find_replace:
  "find (\<lambda>q. payout_id q = i) ps = Some p \<Longrightarrow> payout_id p' = i \<Longrightarrow>
   find (\<lambda>q. payout_id q = i) (map (\<lambda>q. if payout_id q = i then p' else q) ps) = Some p'"
  by (induction ps) (auto split: if_splits)

lemma list_ex_replace:
  "payout_id p' = i \<Longrightarrow> reference_number p' = r \<Longrightarrow>
   list_ex (\<lambda>q. payout_id q \<noteq> i \<and> reference_number q = r)
     (map (\<lambda>q. if payout_id q = i then p' else q) ps)
   = list_ex (\<lambda>q. payout_id q \<noteq> i \<and> reference_number q = r) ps"
  by (induction ps) auto


lemma get_payout_replace:
  "get_payout db i = Some p \<Longrightarrow> payout_id p' = i \<Longrightarrow>
   get_payout (db\<lparr>payouts := map (\<lambda>q. if payout_id q = i then p' else q) (payouts db),
                  task_queue := tq\<rparr>) i = Some p'"
  by (simp add: get_payout_def find_replace)

lemma read_payout_Inr:
  "get_payout db pid = Some p \<Longrightarrow> payout_fits p \<Longrightarrow> read_payout db pid = Inr p"
  by (simp add: read_payout_def)

lemma read_balance_Inr:
  "balances db v = Some b \<Longrightarrow> balance_fits b \<Longrightarrow> read_balance db v = Inr b"
  by (simp add: read_balance_def)

text \<open>The two movements of a debit go together, in the view as in the task.\<close>

lemma debit_pairs:
  "available_balance (debit a b) = available_balance b - a
   \<and> total_payouts (debit a b) = total_payouts b + a"
  by (simp add: debit_def)


lemma payout_fits_completed:
  assumes "payout_fits p" and "fits (amount p - c - f)"
  shows "payout_fits (completed now c f p)"
  using assms by (simp add: payout_fits_def completed_def)

text \<open>
  A run of \<^verbatim>\<open>process_payout\<close> on a payout as the table holds it, when the payout and
  the balance can be loaded.
\<close>

lemma process_payout_done:
  assumes "get_payout db pid = Some p" and "payout_fits p"
    and "commission_fee p = Decimal c" and "processing_fee p = Decimal f"
    and "payout_account p \<noteq> None" and "reference_number p \<noteq> []"
    and "\<not> list_ex (\<lambda>q. payout_id q \<noteq> pid \<and> reference_number q = reference_number p)
             (payouts db)"
    and "balances db (vendor p) = Some b" and "balance_fits b"
  shows "process_payout db now u u' pid =
     (db\<lparr>payouts := map (\<lambda>q. if payout_id q = pid then completed now c f p else q) (payouts db),
         balances := (balances db)(vendor p \<mapsto> debit (amount p) b),
         task_queue := task_queue db @ [Send_payout_processed_email pid]\<rparr>,
      Task_done)"
proof -
  have pid: "payout_id p = pid"
    using assms(1) by (simp add: get_payout_Some)
  let ?p1 = "p\<lparr>status := COMPLETED, processed_at := Some now, completed_at := Some now,
               processor_reference := Some (''PROC-'' @ reference_number p)\<rparr>"
  have sv: "save_loaded db u ?p1
        = Inr (db\<lparr>payouts := map (\<lambda>q. if payout_id q = pid then completed now c f p else q)
                 (payouts db)\<rparr>, completed now c f p)"
    using save_loaded_stored [of ?p1 c f db u] assms(3-7) pid
    by (simp add: completed_def)
  have c: "vendor (completed now c f p) = vendor p" "amount (completed now c f p) = amount p"
    by (simp_all add: completed_def)
  have rb: "read_balance
              (db\<lparr>payouts := map (\<lambda>q. if payout_id q = pid then completed now c f p else q)
                 (payouts db)\<rparr>) (vendor p) = Inr b"
    using assms(8,9) by (simp add: read_balance_def)
  show ?thesis
    using read_payout_Inr [OF assms(1,2)] c sv rb by (simp add: process_payout_def)
qed

lemma process_payout_done_again:
  assumes "get_payout db pid = Some p" and "payout_fits p"
    and "commission_fee p = Decimal c" and "processing_fee p = Decimal f"
    and "payout_account p \<noteq> None" and "reference_number p \<noteq> []"
    and "\<not> list_ex (\<lambda>q. payout_id q \<noteq> pid \<and> reference_number q = reference_number p)
             (payouts db)"
    and "balances db (vendor p) = Some b" and "balance_fits b"
    and "fits (amount p - c - f)"
    and "process_payout db now u u' pid = (db1, r)"
  shows "get_payout db1 pid = Some (completed now c f p)"
    and "payout_fits (completed now c f p)"
    and "commission_fee (completed now c f p) = Decimal c"
    and "processing_fee (completed now c f p) = Decimal f"
    and "payout_account (completed now c f p) \<noteq> None"
    and "reference_number (completed now c f p) \<noteq> []"
    and "\<not> list_ex (\<lambda>q. payout_id q \<noteq> pid
                \<and> reference_number q = reference_number (completed now c f p)) (payouts db1)"
    and "balances db1 (vendor (completed now c f p)) = Some (debit (amount p) b)"
    and "db1 = db\<lparr>payouts := map (\<lambda>q. if payout_id q = pid then completed now c f p else q)
                          (payouts db),
         balances := (balances db)(vendor p \<mapsto> debit (amount p) b),
         task_queue := task_queue db @ [Send_payout_processed_email pid]\<rparr>"
    and "r = Task_done"
proof -
  have pid: "payout_id p = pid"
    using assms(1) by (simp add: get_payout_Some)
  have db1: "db1 = db\<lparr>payouts := map (\<lambda>q. if payout_id q = pid then completed now c f p else q)
                          (payouts db),
         balances := (balances db)(vendor p \<mapsto> debit (amount p) b),
         task_queue := task_queue db @ [Send_payout_processed_email pid]\<rparr>"
    and r: "r = Task_done"
    using process_payout_done [OF assms(1-9), of now u u'] assms(11) by simp_all
  have c: "payout_id (completed now c f p) = pid"
    "reference_number (completed now c f p) = reference_number p"
    "vendor (completed now c f p) = vendor p"
    using pid by (simp_all add: completed_def)
  show "get_payout db1 pid = Some (completed now c f p)"
    using assms(1) c by (simp add: db1 get_payout_def find_replace)
  show "payout_fits (completed now c f p)"
    using assms(2,10) by (rule payout_fits_completed)
  show "commission_fee (completed now c f p) = Decimal c"
    "processing_fee (completed now c f p) = Decimal f"
    "payout_account (completed now c f p) \<noteq> None"
    "reference_number (completed now c f p) \<noteq> []"
    using assms(3-6) by (simp_all add: completed_def)
  show "\<not> list_ex (\<lambda>q. payout_id q \<noteq> pid
                \<and> reference_number q = reference_number (completed now c f p)) (payouts db1)"
    using assms(7) c by (simp add: db1 list_ex_replace)
  show "balances db1 (vendor (completed now c f p)) = Some (debit (amount p) b)"
    using c by (simp add: db1)
  show "db1 = db\<lparr>payouts := map (\<lambda>q. if payout_id q = pid then completed now c f p else q)
                          (payouts db),
         balances := (balances db)(vendor p \<mapsto> debit (amount p) b),
         task_queue := task_queue db @ [Send_payout_processed_email pid]\<rparr>"
    by (rule db1)
  show "r = Task_done"
    by (rule r)
qed




text \<open>The stored payouts of the examples and their balances.\<close>

lemma fits_examples:
  "payout_fits payout_a" "payout_fits payout_f" "payout_fits payout_150"
  "balance_fits balance_100"
  by (simp_all add: payout_fits_def balance_fits_def number_fits_def fits_def payout_a_def
      payout_f_def payout_150_def balance_100_def)

lemma stored_db_b:
  "get_payout db_b 1 = Some payout_a"
  "payout_fits payout_a"
  "commission_fee payout_a = Decimal 0" "processing_fee payout_a = Decimal 0"
  "payout_account payout_a \<noteq> None" "reference_number payout_a \<noteq> []"
  "\<not> list_ex (\<lambda>q. payout_id q \<noteq> 1 \<and> reference_number q = reference_number payout_a)
       (payouts db_b)"
  "balances db_b (vendor payout_a) = Some balance_100"
  "balance_fits balance_100"
  "fits (amount payout_a - 0 - 0)"
  "balance_fits (debit (amount payout_a) balance_100)"
  by (simp_all add: fits_examples)
    (simp_all add: get_payout_def db_b_def db_a_def payout_a_def fits_def balance_fits_def
      debit_def balance_100_def)


lemma stored_db_150:
  "get_payout db_150 1 = Some payout_150"
  "payout_fits payout_150"
  "commission_fee payout_150 = Decimal 0" "processing_fee payout_150 = Decimal 0"
  "payout_account payout_150 \<noteq> None" "reference_number payout_150 \<noteq> []"
  "\<not> list_ex (\<lambda>q. payout_id q \<noteq> 1 \<and> reference_number q = reference_number payout_150)
       (payouts db_150)"
  "balances db_150 (vendor payout_150) = Some balance_100"
  "balance_fits balance_100"
  by (simp_all add: fits_examples)
    (simp_all add: get_payout_def db_150_def db_a_def payout_150_def payout_a_def)



text \<open>
  The bound of the columns at work: with \<open>total_payouts\<close> at 9999999999.99, the largest
  value of the column, the first run writes a total of 13 digits, and the second run,
  which has already written the payout as \<open>COMPLETED\<close>, cannot load the balance: the
  handler sets the payout to \<open>FAILED\<close> and the task is retried.
\<close>

lemma process_payout_at_the_column_limit:
  "snd (process_payout db_limit time_1 uuid_a uuid_b 1) = Task_done
   \<and> map_option total_payouts
       (balances (fst (process_payout db_limit time_1 uuid_a uuid_b 1)) 1)
       = Some 1000000009999
   \<and> snd (process_payout (fst (process_payout db_limit time_1 uuid_a uuid_b 1))
            time_2 uuid_a uuid_b 1) = Task_retry
   \<and> map_option status
       (get_payout (fst (process_payout (fst (process_payout db_limit time_1 uuid_a uuid_b 1))
            time_2 uuid_a uuid_b 1)) 1) = Some FAILED"
proof -
  have st: "get_payout db_limit 1 = Some payout_a"
    "balances db_limit (vendor payout_a) = Some balance_limit"
    "balance_fits balance_limit"
    "\<not> list_ex (\<lambda>q. payout_id q \<noteq> 1 \<and> reference_number q = reference_number payout_a)
       (payouts db_limit)"
    by (simp_all add: get_payout_def db_limit_def db_b_def db_a_def payout_a_def balance_limit_def
        balance_100_def balance_fits_def fits_def)
  obtain db1 r1 where r1: "process_payout db_limit time_1 uuid_a uuid_b 1 = (db1, r1)"
    by (cases "process_payout db_limit time_1 uuid_a uuid_b 1")
  note a = process_payout_done_again [OF st(1) stored_db_b(2-6) st(4) st(2,3) stored_db_b(10) r1]
  have nb: "\<not> balance_fits (debit (amount payout_a) balance_limit)"
    by (simp add: balance_fits_def fits_def debit_def balance_limit_def balance_100_def
        payout_a_def)
  let ?c = "completed time_1 0 0 payout_a"
  let ?c2 = "completed time_2 0 0 payout_a"
  have pid: "payout_id ?c = 1" "payout_id payout_a = 1"
    by (simp_all add: completed_def payout_a_def)
  have sv: "save_loaded db1 uuid_a
              (?c\<lparr>status := COMPLETED, processed_at := Some time_2, completed_at := Some time_2,
                  processor_reference := Some (''PROC-'' @ reference_number ?c)\<rparr>)
            = Inr (db1\<lparr>payouts := map (\<lambda>q. if payout_id q = 1 then ?c2 else q) (payouts db1)\<rparr>,
                   ?c2)"
    using save_loaded_stored [of "?c\<lparr>status := COMPLETED, processed_at := Some time_2,
                  completed_at := Some time_2,
                  processor_reference := Some (''PROC-'' @ reference_number ?c)\<rparr>" 0 0 db1 uuid_a]
      a(3-7) pid
    by (simp add: completed_def)
  let ?db1' = "db1\<lparr>payouts := map (\<lambda>q. if payout_id q = 1 then ?c2 else q) (payouts db1)\<rparr>"
  have g2: "get_payout ?db1' 1 = Some ?c2"
    using a(1) by (simp add: get_payout_def find_replace completed_def payout_a_def)
  have pf2: "payout_fits ?c2"
    by (simp add: payout_fits_def number_fits_def fits_def completed_def payout_a_def)
  have rb: "read_balance ?db1' (vendor ?c2) = Inl invalid_operation"
    using a(8) nb by (simp add: read_balance_def completed_def)
  let ?m = "error_text invalid_operation"
  have sv2: "save_loaded ?db1' uuid_b (?c2\<lparr>status := FAILED, failure_reason := Some ?m\<rparr>)
            = Inr (?db1'\<lparr>payouts := map (\<lambda>q. if payout_id q = 1
                           then ?c2\<lparr>status := FAILED, failure_reason := Some ?m\<rparr> else q)
                           (payouts ?db1')\<rparr>,
                   ?c2\<lparr>status := FAILED, failure_reason := Some ?m\<rparr>)"
    using save_loaded_stored [of "?c2\<lparr>status := FAILED, failure_reason := Some ?m\<rparr>" 0 0
        ?db1' uuid_b] a(7)
    by (simp add: completed_def payout_a_def list_ex_replace)
  have mf: "mark_failed ?db1' uuid_b 1 ?m
            = (?db1'\<lparr>payouts := map (\<lambda>q. if payout_id q = 1
                           then ?c2\<lparr>status := FAILED, failure_reason := Some ?m\<rparr> else q)
                           (payouts ?db1'),
                     task_queue := task_queue ?db1' @ [Send_payout_failed_email 1 ?m]\<rparr>,
               Task_retry)"
    unfolding mark_failed_def read_payout_Inr [OF g2 pf2] using sv2 by simp
  have run2: "process_payout db1 time_2 uuid_a uuid_b 1
            = (?db1'\<lparr>payouts := map (\<lambda>q. if payout_id q = 1
                           then ?c2\<lparr>status := FAILED, failure_reason := Some ?m\<rparr> else q)
                           (payouts ?db1'),
                     task_queue := task_queue ?db1' @ [Send_payout_failed_email 1 ?m]\<rparr>,
               Task_retry)"
    unfolding process_payout_def read_payout_Inr [OF a(1,2)] using sv rb mf by simp
  have pidf: "payout_id (?c2\<lparr>status := FAILED, failure_reason := Some ?m\<rparr>) = 1"
    by (simp add: completed_def payout_a_def)
  have g3: "get_payout (?db1'\<lparr>payouts := map (\<lambda>q. if payout_id q = 1
                           then ?c2\<lparr>status := FAILED, failure_reason := Some ?m\<rparr> else q)
                           (payouts ?db1'),
                     task_queue := task_queue ?db1' @ [Send_payout_failed_email 1 ?m]\<rparr>) 1
            = Some (?c2\<lparr>status := FAILED, failure_reason := Some ?m\<rparr>)"
    by (rule get_payout_replace [OF g2 pidf])
  have tp: "map_option total_payouts (balances db1 1) = Some 1000000009999"
    using a(8) by (simp add: completed_def payout_a_def debit_def balance_limit_def
        balance_100_def)
  have fin: "snd (process_payout db1 time_2 uuid_a uuid_b 1) = Task_retry"
    unfolding run2 snd_conv by (rule refl)
  have gs: "map_option status (get_payout (fst (process_payout db1 time_2 uuid_a uuid_b 1)) 1)
              = Some FAILED"
    unfolding run2 fst_conv g3 by simp
  show ?thesis
    unfolding r1 fst_conv snd_conv
    using a(10) tp fin gs by simp
qed

text \<open>
  Claim C1 at a stored payout of 150.00 of a vendor whose available balance is 100.00:
  \<^verbatim>\<open>process_payout\<close> debits the amount without any check, and
  \<open>available_balance\<close> ends at -50.00.
\<close>

theorem available_balance_goes_negative:
  "map_option available_balance (balances db_150 1) = Some 10000
   \<and> map amount (payouts db_150) = [15000]
   \<and> snd (process_payout db_150 time_1 uuid_a uuid_b 1) = Task_done
   \<and> map_option available_balance
       (balances (fst (process_payout db_150 time_1 uuid_a uuid_b 1)) 1) = Some (- 5000)
   \<and> map_option total_payouts
       (balances (fst (process_payout db_150 time_1 uuid_a uuid_b 1)) 1) = Some 15000"
  unfolding process_payout_done [OF stored_db_150] fst_conv snd_conv
  by (simp add: db_150_def db_a_def payout_150_def payout_a_def debit_def balance_100_def)

section \<open>Properties of the scheduled sweep\<close>

text \<open>
  One iteration: the creation of the payout always raises inside the \<^verbatim>\<open>try\<close>, so a
  schedule whose vendor reaches the minimum is skipped, and only a schedule whose vendor
  is below the minimum gets to \<^verbatim>\<open>update_next_payout_date\<close>.
\<close>

lemma sweep_schedule_cases:
  "sweep_schedule now u s (db, c) =
     (case balances db (schedule_vendor s) of
        None \<Rightarrow> (db, c)
      | Some b \<Rightarrow>
          if available_balance b \<ge> minimum_payout_amount s then (db, c)
          else (case update_next_payout_date db now s of
                  Inl e \<Rightarrow> (db, c)
                | Inr db1 \<Rightarrow> (db1, c)))"
  by (simp add: sweep_schedule_def Payout_objects_create_raises split: option.splits)

text \<open>
  The interval of a cadence, and \<^verbatim>\<open>update_next_payout_date\<close> on a day from which the
  longest interval stays within the range of a date.
\<close>

lemma next_date_in_range:
  "date_of now + 30 \<le> max_date \<Longrightarrow>
   next_date t (date_of now) = Inr (map_option (\<lambda>k. date_of now + k) (cadence_interval t))"
  by (cases t) (simp_all add: add_days_def cadence_interval_def)

lemma update_next_payout_date_in_range:
  "date_of now + 30 \<le> max_date \<Longrightarrow>
   update_next_payout_date db now s =
     Inr (db\<lparr>payout_schedules :=
               map (\<lambda>r. if schedule_id r = schedule_id s then advanced now s else r)
                 (payout_schedules db)\<rparr>)"
  by (simp add: update_next_payout_date_def next_date_in_range advanced_def)

lemma update_next_payout_date_keeps:
  assumes "update_next_payout_date db now s = Inr db1"
  shows "balances db1 = balances db" and "payouts db1 = payouts db"
    and "task_queue db1 = task_queue db"
    and "map schedule_id (payout_schedules db1) = map schedule_id (payout_schedules db)"
  using assms
  by (auto simp: update_next_payout_date_def split: sum.splits cong: map_cong)

lemma find_schedule_other:
  "schedule_id s' = j \<Longrightarrow> i \<noteq> j \<Longrightarrow>
   find (\<lambda>r. schedule_id r = i) (map (\<lambda>r. if schedule_id r = j then s' else r) rs)
     = find (\<lambda>r. schedule_id r = i) rs"
  by (induction rs) auto

lemma find_schedule_same:
  "i \<in> schedule_id ` set rs \<Longrightarrow> schedule_id s' = i \<Longrightarrow>
   find (\<lambda>r. schedule_id r = i) (map (\<lambda>r. if schedule_id r = i then s' else r) rs) = Some s'"
  by (induction rs) auto

lemma get_schedule_update_other:
  assumes "update_next_payout_date db now s = Inr db1" and "i \<noteq> schedule_id s"
  shows "get_schedule db1 i = get_schedule db i"
  using assms
  by (auto simp: update_next_payout_date_def get_schedule_def find_schedule_other
      split: sum.splits)

text \<open>What one iteration keeps, and the same for the rest of the loop.\<close>

lemma sweep_schedule_keeps:
  "balances (fst (sweep_schedule now u s st)) = balances (fst st)"
  "payouts (fst (sweep_schedule now u s st)) = payouts (fst st)"
  "task_queue (fst (sweep_schedule now u s st)) = task_queue (fst st)"
  "map schedule_id (payout_schedules (fst (sweep_schedule now u s st)))
     = map schedule_id (payout_schedules (fst st))"
  by (cases st; simp add: sweep_schedule_cases update_next_payout_date_keeps
      split: option.splits sum.splits)+

lemma sweep_schedule_other_schedule:
  "i \<noteq> schedule_id s \<Longrightarrow>
   get_schedule (fst (sweep_schedule now u s st)) i = get_schedule (fst st) i"
  by (cases st)
    (simp add: sweep_schedule_cases get_schedule_update_other split: option.splits sum.splits)

lemma sweep_fold_keeps:
  "balances (fst (fold (\<lambda>s. sweep_schedule now (uu (schedule_id s)) s) xs st)) = balances (fst st)
   \<and> payouts (fst (fold (\<lambda>s. sweep_schedule now (uu (schedule_id s)) s) xs st))
       = payouts (fst st)
   \<and> task_queue (fst (fold (\<lambda>s. sweep_schedule now (uu (schedule_id s)) s) xs st))
       = task_queue (fst st)
   \<and> map schedule_id (payout_schedules (fst (fold (\<lambda>s. sweep_schedule now (uu (schedule_id s)) s) xs st)))
       = map schedule_id (payout_schedules (fst st))"
  by (induction xs arbitrary: st) (simp_all add: sweep_schedule_keeps)

lemma sweep_fold_other_schedule:
  "i \<notin> schedule_id ` set xs \<Longrightarrow>
   get_schedule (fst (fold (\<lambda>s. sweep_schedule now (uu (schedule_id s)) s) xs st)) i
     = get_schedule (fst st) i"
  by (induction xs arbitrary: st) (simp_all add: sweep_schedule_other_schedule)

text \<open>The loop split at the schedule under consideration.\<close>

lemma due_split:
  assumes "distinct (map schedule_id rs)" and "s \<in> set rs" and "P s"
  shows "\<exists>xs ys. filter P rs = xs @ s # ys
           \<and> schedule_id s \<notin> schedule_id ` set xs \<and> schedule_id s \<notin> schedule_id ` set ys"
proof -
  have d: "distinct (map schedule_id (filter P rs))"
    using assms(1) by (simp add: distinct_map_filter)
  have "s \<in> set (filter P rs)"
    using assms by simp
  then obtain xs ys where sp: "filter P rs = xs @ s # ys"
    by (auto dest: split_list)
  from d show ?thesis
    unfolding sp by (intro exI [of _ xs] exI [of _ ys]) auto
qed

text \<open>
  The part of the sweep that works. For a due schedule (active, auto-process, date
  reached) whose vendor's available balance is below the schedule's minimum, the sweep
  returns, creates no payout, and moves \<open>next_payout_date\<close> to the day of the run plus
  the interval of the cadence (no date for a manual schedule) and stamps
  \<open>last_processed_at\<close>. Schedule ids are unique, as the primary key makes them; the
  due schedules and their balances can be loaded; the day of the run is at least 30 days
  before the last date.
\<close>

lemma sweep_advances_ineligible_schedule:
  assumes "distinct (map schedule_id (payout_schedules db))"
    and "s \<in> set (payout_schedules db)"
    and "is_due (date_of now) s"
    and "list_all (schedule_loads db) (filter (is_due (date_of now)) (payout_schedules db))"
    and "balances db (schedule_vendor s) = Some b"
    and "available_balance b < minimum_payout_amount s"
    and "date_of now + 30 \<le> max_date"
  shows "\<exists>db' n. process_scheduled_payouts db now uu = Inr (db', n)
           \<and> get_schedule db' (schedule_id s)
               = Some (s\<lparr>next_payout_date :=
                            map_option (\<lambda>k. date_of now + k) (cadence_interval (schedule_type s)),
                         last_processed_at := Some now\<rparr>)
           \<and> payouts db' = payouts db \<and> task_queue db' = task_queue db
           \<and> balances db' = balances db"
proof -
  let ?step = "\<lambda>s. sweep_schedule now (uu (schedule_id s)) s"
  let ?due = "filter (is_due (date_of now)) (payout_schedules db)"
  from due_split [OF assms(1,2), of "is_due (date_of now)", OF assms(3)]
  obtain xs ys where sp: "?due = xs @ s # ys"
    and nx: "schedule_id s \<notin> schedule_id ` set xs"
    and ny: "schedule_id s \<notin> schedule_id ` set ys"
    by blast
  obtain db1 c1 where st1: "fold ?step xs (db, 0) = (db1, c1)"
    by (cases "fold ?step xs (db, 0)")
  note k = sweep_fold_keeps [of now uu xs "(db, 0)", unfolded st1 fst_conv]
  have bal: "balances db1 = balances db"
    using k by simp
  have "set (map schedule_id (payout_schedules db1)) = set (map schedule_id (payout_schedules db))"
    using k by simp
  then have ids: "schedule_id s \<in> schedule_id ` set (payout_schedules db1)"
    using assms(2) by auto
  let ?db2 = "db1\<lparr>payout_schedules :=
               map (\<lambda>r. if schedule_id r = schedule_id s then advanced now s else r)
                 (payout_schedules db1)\<rparr>"
  have step: "sweep_schedule now (uu (schedule_id s)) s (db1, c1) = (?db2, c1)"
    using assms(5,6) bal
    by (simp add: sweep_schedule_cases update_next_payout_date_in_range [OF assms(7)])
  have g2: "get_schedule ?db2 (schedule_id s) = Some (advanced now s)"
    using ids by (simp add: get_schedule_def find_schedule_same advanced_def)
  have whole: "process_scheduled_payouts db now uu = Inr (fold ?step ys (?db2, c1))"
    using assms(4) by (simp add: process_scheduled_payouts_def Let_def sp st1 step)
  have all: "fold ?step ?due (db, 0) = fold ?step ys (?db2, c1)"
    by (simp add: sp st1 step)
  obtain db' n where fin: "fold ?step ys (?db2, c1) = (db', n)"
    by (cases "fold ?step ys (?db2, c1)")
  have sched: "get_schedule db' (schedule_id s) = Some (advanced now s)"
    using sweep_fold_other_schedule [OF ny, of now uu "(?db2, c1)"] g2
    unfolding fin by simp
  have keep: "payouts db' = payouts db \<and> task_queue db' = task_queue db
              \<and> balances db' = balances db"
    using sweep_fold_keeps [of now uu ?due "(db, 0)"] unfolding all fin by simp
  show ?thesis
    using whole sched keep unfolding fin by (simp add: advanced_def)
qed

lemma date_of_time_1: "date_of time_1 = 20000"
  by (simp add: date_of_def time_1_def)

lemma is_due_schedule_a: "is_due (date_of time_1) schedule_a"
  by (simp add: is_due_def date_of_time_1 schedule_a_def)

lemma is_due_schedule_b: "is_due (date_of time_1) schedule_b"
  by (simp add: is_due_def date_of_time_1 schedule_b_def schedule_a_def)

lemmas sweep_defs = process_scheduled_payouts_def schedule_loads_def balance_fits_def fits_def
  sweep_schedule_cases update_next_payout_date_def add_days_def max_date_def date_of_time_1

text \<open>
  Claim C8 at a due weekly schedule whose vendor has an available balance of 100.00,
  above the minimum of 50.00, and a primary payout account. The sweep returns with no
  payout created and no task dispatched, \<^verbatim>\<open>processed_count\<close> 0, and the schedule
  as it was, \<open>next_payout_date\<close> included: \<^verbatim>\<open>Payout.objects.create\<close> raises
  \<^verbatim>\<open>TypeError\<close> inside the \<^verbatim>\<open>try\<close>, and the \<^verbatim>\<open>except\<close> goes on to the next
  schedule.
\<close>

theorem sweep_creates_nothing_for_eligible_schedule:
  "payout_schedules db_s = [schedule_a]
   \<and> is_due (date_of time_1) schedule_a
   \<and> schedule_type schedule_a = Sch_WEEKLY
   \<and> next_payout_date schedule_a = Some 20000
   \<and> map_option available_balance (balances db_s (schedule_vendor schedule_a)) = Some 10000
   \<and> minimum_payout_amount schedule_a = 5000
   \<and> primary_account db_s (schedule_vendor schedule_a) = Some acct_stripe
   \<and> payouts db_s = [] \<and> task_queue db_s = []
   \<and> process_scheduled_payouts db_s time_1 (\<lambda>i. uuid_a) = Inr (db_s, 0)"
proof -
  have run: "process_scheduled_payouts db_s time_1 (\<lambda>i. uuid_a) = Inr (db_s, 0)"
    using is_due_schedule_a [unfolded date_of_time_1]
    by (simp add: sweep_defs Let_def db_s_def db_a_def schedule_a_def balance_100_def)
  show ?thesis
    unfolding run
    by (simp add: is_due_schedule_a)
      (simp add: primary_account_def db_s_def db_a_def schedule_a_def balance_100_def
        acct_stripe_def)
qed

text \<open>
  Claim C10 at a sweep that visits two due schedules: the weekly one of vendor 1, whose
  available balance of 100.00 reaches the minimum of 50.00, and the monthly one of
  vendor 2, whose available balance of 100.00 is below the minimum of 200.00. The
  schedule of vendor 2 is moved by 30 days from the day of the run and stamped. The
  schedule of vendor 1 is visited and left as it was, neither moved nor stamped:
  \<^verbatim>\<open>Payout.objects.create\<close> raises inside the \<^verbatim>\<open>try\<close>, and
  \<^verbatim>\<open>update_next_payout_date\<close> is not reached.
\<close>

theorem sweep_leaves_eligible_schedule_unadvanced:
  "filter (is_due (date_of time_1)) (payout_schedules db_two) = [schedule_a, schedule_b]
   \<and> map_option available_balance (balances db_two (schedule_vendor schedule_a)) = Some 10000
   \<and> minimum_payout_amount schedule_a = 5000
   \<and> map_option available_balance (balances db_two (schedule_vendor schedule_b)) = Some 10000
   \<and> minimum_payout_amount schedule_b = 20000
   \<and> next_payout_date schedule_a = Some 20000 \<and> last_processed_at schedule_a = None
   \<and> next_payout_date schedule_b = Some 20000 \<and> date_of time_1 = 20000
   \<and> process_scheduled_payouts db_two time_1 (\<lambda>i. uuid_a)
       = Inr (db_two\<lparr>payout_schedules :=
                       [schedule_a,
                        schedule_b\<lparr>next_payout_date := Some 20030,
                                   last_processed_at := Some time_1\<rparr>]\<rparr>, 0)"
proof -
  have due: "filter (is_due (date_of time_1)) (payout_schedules db_two)
               = [schedule_a, schedule_b]"
    by (simp add: db_two_def is_due_schedule_a is_due_schedule_b)
  have run: "process_scheduled_payouts db_two time_1 (\<lambda>i. uuid_a)
       = Inr (db_two\<lparr>payout_schedules :=
                       [schedule_a,
                        schedule_b\<lparr>next_payout_date := Some 20030,
                                   last_processed_at := Some time_1\<rparr>]\<rparr>, 0)"
    unfolding process_scheduled_payouts_def Let_def due
    by (simp add: schedule_loads_def balance_fits_def fits_def sweep_schedule_cases
        update_next_payout_date_def add_days_def max_date_def date_of_time_1
        db_two_def db_a_def schedule_a_def schedule_b_def balance_100_def)
  show ?thesis
    unfolding run due
    by (simp add: date_of_time_1)
      (simp add: db_two_def db_a_def schedule_a_def schedule_b_def
        balance_100_def)
qed

end
